theory Spec2Isabelle
  imports Complex_Main "HOL-Library.AList" "HOL-Library.Char_ord" "HOL-Library.List_Lexorder"
    "HOL-Library.Product_Lexorder" "HOL-Library.Sublist"
begin


section \<open>Survey dashboards: the data model\<close>

text \<open>
  The two scripts \<^verbatim>\<open>studentsurvey.py\<close> and \<^verbatim>\<open>tuto_sv.py\<close> load one CSV file into a
  data frame and hand aggregates of it to a charting library. A cell of the loaded
  table is a number, a text or missing (\<^verbatim>\<open>NaN\<close>). Numbers are exact rationals here:
  no statement below depends on the rounding of the 64-bit floats of the original.
  A frame is the list of its columns in file order, each a name and its cells; the
  CSV reader gives every column the same number of cells and unique names.
\<close>

datatype cell = NaN | Num rat | Str string

type_synonym frame = "(string \<times> cell list) list"

datatype error = KeyError string | TypeError | LoadError string | SyntaxError string

fun is_Str :: "cell \<Rightarrow> bool" where
  "is_Str (Str s) = True"
| "is_Str c = False"

fun nums :: "cell list \<Rightarrow> rat list" where
  "nums [] = []"
| "nums (Num q # cs) = q # nums cs"
| "nums (c # cs) = nums cs"

definition nrows :: "frame \<Rightarrow> nat" where
  "nrows data = (case data of [] \<Rightarrow> 0 | (name, c) # rest \<Rightarrow> length c)"

subsection \<open>The data-frame operations the scripts call\<close>

text \<open>
  \<^verbatim>\<open>data[col]\<close> raises \<^verbatim>\<open>KeyError\<close> for a column that is not there;
  \<^verbatim>\<open>data[col] = values\<close> replaces the column in place, or appends a new one as the
  last column.
\<close>

definition getitem :: "frame \<Rightarrow> string \<Rightarrow> error + cell list" where
  "getitem data col = (case map_of data col of None \<Rightarrow> Inl (KeyError col) | Some c \<Rightarrow> Inr c)"

definition setitem :: "frame \<Rightarrow> string \<Rightarrow> cell list \<Rightarrow> frame" where
  "setitem data col c = AList.update col c data"

fun getitems :: "frame \<Rightarrow> string list \<Rightarrow> error + cell list list" where
  "getitems data [] = Inr []"
| "getitems data (col # cols) =
     (case getitem data col of
        Inl e \<Rightarrow> Inl e
      | Inr c \<Rightarrow> (case getitems data cols of Inl e \<Rightarrow> Inl e | Inr cs \<Rightarrow> Inr (c # cs)))"

text \<open>\<^verbatim>\<open>data.copy()\<close> is a new object with the same contents.\<close>

definition copy :: "frame \<Rightarrow> frame" where
  "copy data = data"

text \<open>
  \<^verbatim>\<open>pd.to_numeric(..., errors='coerce')\<close>: a number stays, a missing cell stays
  missing, a text becomes the number it spells or, when it spells none, missing.
  Which texts spell a number is the library's parser, the parameter \<open>to_num\<close>.
\<close>

fun to_numeric :: "(string \<Rightarrow> rat option) \<Rightarrow> cell \<Rightarrow> cell" where
  "to_numeric to_num NaN = NaN"
| "to_numeric to_num (Num q) = Num q"
| "to_numeric to_num (Str s) = (case to_num s of Some q \<Rightarrow> Num q | None \<Rightarrow> NaN)"

text \<open>
  \<^verbatim>\<open>mean()\<close> skips missing cells and is missing itself when nothing is left; on
  text cells it raises \<^verbatim>\<open>TypeError\<close>.
\<close>

definition nanmean :: "cell list \<Rightarrow> cell" where
  "nanmean cs = (let xs = nums cs in if xs = [] then NaN else Num (sum_list xs / of_nat (length xs)))"

definition mean :: "cell list \<Rightarrow> error + cell" where
  "mean cs = (if list_ex is_Str cs then Inl TypeError else Inr (nanmean cs))"

fun means :: "cell list list \<Rightarrow> error + cell list" where
  "means [] = Inr []"
| "means (c # cs) =
     (case mean c of
        Inl e \<Rightarrow> Inl e
      | Inr m \<Rightarrow> (case means cs of Inl e \<Rightarrow> Inl e | Inr ms \<Rightarrow> Inr (m # ms)))"

text \<open>
  \<^verbatim>\<open>mean(axis=1)\<close>: the mean of each row over the selected columns. A row of the
  selection is read by position; a column too short reads as missing.
\<close>

definition cell_at :: "cell list \<Rightarrow> nat \<Rightarrow> cell" where
  "cell_at c i = (if i < length c then c ! i else NaN)"

definition row_of :: "cell list list \<Rightarrow> nat \<Rightarrow> cell list" where
  "row_of cols i = map (\<lambda>c. cell_at c i) cols"

definition mean_axis1 :: "nat \<Rightarrow> cell list list \<Rightarrow> error + cell list" where
  "mean_axis1 n cols =
     (if list_ex (list_ex is_Str) cols then Inl TypeError
      else Inr (map (\<lambda>i. nanmean (row_of cols i)) [0..<n]))"

text \<open>
  \<^verbatim>\<open>value_counts()\<close>: the distinct values that are not missing, each with the
  number of its occurrences, counted in order of first appearance and then sorted
  by descending count.
\<close>

fun bump :: "cell \<Rightarrow> (cell \<times> nat) list \<Rightarrow> (cell \<times> nat) list" where
  "bump x [] = [(x, 1)]"
| "bump x ((k, n) # kns) = (if k = x then (k, Suc n) # kns else (k, n) # bump x kns)"

definition tally :: "cell list \<Rightarrow> (cell \<times> nat) list" where
  "tally col = foldl (\<lambda>acc x. bump x acc) [] (filter (\<lambda>x. x \<noteq> NaN) col)"

text \<open>
  Modelled from the spec: the order in which \<^verbatim>\<open>value_counts()\<close> leaves values with
  equal counts. The sort behind it is the data-frame library's and not part of the
  repository; the spec calls it a stable sort by count descending, so values with
  equal counts keep the order of their first appearance (\<open>sort_key\<close> is a stable
  insertion sort).
\<close>

definition value_counts :: "cell list \<Rightarrow> (cell \<times> nat) list" where
  "value_counts col = sort_key (\<lambda>(k, n). - int n) (tally col)"

text \<open>\<^verbatim>\<open>head(n)\<close> keeps the first \<open>n\<close> rows.\<close>

definition head :: "nat \<Rightarrow> 'a list \<Rightarrow> 'a list" where
  "head n xs = take n xs"

definition frame_head :: "nat \<Rightarrow> frame \<Rightarrow> frame" where
  "frame_head n data = map (\<lambda>(name, c). (name, take n c)) data"

section \<open>The page and the process\<close>

text \<open>
  A run of a script emits page elements in order. A chart element carries its title
  and the aggregate it plots. The emoji glyphs of the original captions are left out
  of the string literals.
\<close>

datatype chart_data =
    Counts "(cell \<times> nat) list"
  | Trend "(string option \<times> cell) list"
  | Scores "(nat \<times> string \<times> cell) list"
  | Proportions "(cell \<times> string \<times> rat) list"
  | Ratings "(string \<times> cell) list"

datatype element =
    Header string
  | Title string
  | Markdown string
  | Metric string string string
  | ErrorBox string
  | Dataframe frame
  | Subheader string
  | Chart string chart_data
  | Info string
  | SidebarInfo string

datatype outcome = Completed | Raised error

record page =
  elements :: "element list"
  outcome :: outcome

text \<open>
  What outlives a run: the memo table of \<^verbatim>\<open>st.cache_data\<close>, and, to speak about
  network traffic, the log of the locators fetched so far. The network is a parameter:
  what \<^verbatim>\<open>pd.read_csv(url)\<close> does when it is the process's \<open>n\<close>-th fetch, a frame or an
  exception. The same locator may fail at one time and succeed at another.
\<close>

record world =
  cache :: "string \<Rightarrow> (frame option \<times> element list) option"
  fetch_log :: "string list"

type_synonym network = "nat \<Rightarrow> string \<Rightarrow> error + frame"

definition fresh :: world where
  "fresh = \<lparr>cache = (\<lambda>url. None), fetch_log = []\<rparr>"

definition read_csv :: "network \<Rightarrow> string \<Rightarrow> world \<Rightarrow> (error + frame) \<times> world" where
  "read_csv net url w = (net (length (fetch_log w)) url, w\<lparr>fetch_log := fetch_log w @ [url]\<rparr>)"

fun str :: "error \<Rightarrow> string" where
  "str (KeyError k) = k"
| "str TypeError = ''TypeError''"
| "str (LoadError m) = m"
| "str (SyntaxError m) = m"

text \<open>
  The body of \<^verbatim>\<open>load_data\<close>: \<^verbatim>\<open>try: return pd.read_csv(url)\<close>, and on any exception
  \<^verbatim>\<open>st.error(...)\<close> and \<^verbatim>\<open>return None\<close>. The result is the returned value, or the
  exception that leaves the function, with the elements emitted inside it.
\<close>

definition load_data_body ::
  "network \<Rightarrow> string \<Rightarrow> world \<Rightarrow> ((error + frame option) \<times> element list) \<times> world" where
  "load_data_body net url w =
     (case read_csv net url w of
        (Inr arts_df, w') \<Rightarrow> ((Inr (Some arts_df), []), w')
      | (Inl e, w') \<Rightarrow>
          ((Inr None, [ErrorBox (''An error occurred while loading data: '' @ str e)]), w'))"

text \<open>
  The decorator \<^verbatim>\<open>@st.cache_data\<close>, used without a time to live or a size bound:
  a call with an argument seen before returns the stored value and replays the
  elements the body emitted, without running the body; otherwise the body runs and
  what it returned is stored under the argument. An exception leaving the body is not
  stored. Nothing removes an entry.
\<close>

definition cache_data ::
  "(string \<Rightarrow> world \<Rightarrow> ((error + frame option) \<times> element list) \<times> world) \<Rightarrow>
   string \<Rightarrow> world \<Rightarrow> ((error + frame option) \<times> element list) \<times> world" where
  "cache_data f url w =
     (case cache w url of
        Some (v, msgs) \<Rightarrow> ((Inr v, msgs), w)
      | None \<Rightarrow>
          (case f url w of
             ((Inr v, msgs), w') \<Rightarrow> ((Inr v, msgs), w'\<lparr>cache := (cache w')(url \<mapsto> (v, msgs))\<rparr>)
           | ((Inl e, msgs), w') \<Rightarrow> ((Inl e, msgs), w')))"

definition load_data ::
  "network \<Rightarrow> string \<Rightarrow> world \<Rightarrow> ((error + frame option) \<times> element list) \<times> world" where
  "load_data net = cache_data (load_data_body net)"

text \<open>Any number of later calls of the loader, on any locators.\<close>

fun loads :: "network \<Rightarrow> string list \<Rightarrow> world \<Rightarrow> world" where
  "loads net [] w = w"
| "loads net (url # urls) w = loads net urls (snd (load_data net url w))"

definition URL :: string where
  "URL = ''https://raw.githubusercontent.com/Wanioooo/tuto-SV/refs/heads/main/arts_faculty_data.csv''"

subsection \<open>The script \<^verbatim>\<open>tuto_sv.py\<close>\<close>

definition tuto_sv_preamble :: "element list" where
  "tuto_sv_preamble =
     [Header ''Scientific Visualization'',
      Title ''Arts Faculty Data: Gender Distribution'',
      Markdown ''Loading data and visualizing the distribution of students by gender.'']"

definition tuto_sv_sidebar :: element where
  "tuto_sv_sidebar = SidebarInfo ''To run this application, save the code as a Python file (e.g., `app.py`) and execute it using the command: streamlit run app.py''"

definition tuto_sv :: "network \<Rightarrow> world \<Rightarrow> page \<times> world" where
  "tuto_sv net w =
     (case load_data net URL w of
        ((Inl e, msgs), w') \<Rightarrow> (\<lparr>elements = tuto_sv_preamble @ msgs, outcome = Raised e\<rparr>, w')
      | ((Inr None, msgs), w') \<Rightarrow>
          (\<lparr>elements = tuto_sv_preamble @ msgs @ [tuto_sv_sidebar], outcome = Completed\<rparr>, w')
      | ((Inr (Some arts_df), msgs), w') \<Rightarrow>
          (case getitem arts_df ''Gender'' of
             Inl e \<Rightarrow>
               (\<lparr>elements = tuto_sv_preamble @ msgs @
                    [Subheader ''Raw Data Preview'', Dataframe (frame_head 5 arts_df),
                     Subheader ''Distribution of Gender in Arts Faculty''],
                 outcome = Raised e\<rparr>, w')
           | Inr gender \<Rightarrow>
               (\<lparr>elements = tuto_sv_preamble @ msgs @
                    [Subheader ''Raw Data Preview'', Dataframe (frame_head 5 arts_df),
                     Subheader ''Distribution of Gender in Arts Faculty'',
                     Chart ''Distribution of Gender in Arts Faculty'' (Counts (value_counts gender)),
                     tuto_sv_sidebar],
                 outcome = Completed\<rparr>, w')))"


subsection \<open>The aggregators and chart builders of \<^verbatim>\<open>studentsurvey.py\<close>\<close>

text \<open>
  Python passes the frame by reference, so a chart builder that assigns to a column
  changes the caller's table. Each builder therefore returns, beside the elements it
  emits (or the exception it raises), the table of the caller as it is afterwards.
\<close>

type_synonym chart_builder = "frame \<Rightarrow> (error + element list) \<times> frame"

definition gpa_cols :: "string list" where
  "gpa_cols =
     [''1st Year Semester 1'', ''1st Year Semester 2'', ''1st Year Semester 3'',
      ''2nd Year Semester 1'', ''2nd Year Semester 2'', ''2nd Year Semester 3'',
      ''3rd Year Semester 1'', ''3rd Year Semester 2'', ''3rd Year Semester 3'',
      ''4th Year Semester 1'', ''4th Year Semester 2'', ''4th Year Semester 3'']"

definition semester_order :: "string list" where
  "semester_order =
     [''1Y S1'', ''1Y S2'', ''1Y S3'',
      ''2Y S1'', ''2Y S2'', ''2Y S3'',
      ''3Y S1'', ''3Y S2'', ''3Y S3'',
      ''4Y S1'', ''4Y S2'', ''4Y S3'']"

text \<open>
  \<^verbatim>\<open>str.replace(old, new)\<close> replaces the occurrences of \<open>old\<close> from left to right,
  without overlap; with an empty \<open>old\<close> it puts \<open>new\<close> around every character.
\<close>

fun str_replace :: "string \<Rightarrow> string \<Rightarrow> string \<Rightarrow> string" where
  "str_replace old new [] = (if old = [] then new else [])"
| "str_replace old new (c # cs) =
     (if old = [] then new @ c # str_replace old new cs
      else if prefix old (c # cs) then new @ str_replace old new (drop (length old - 1) cs)
      else c # str_replace old new cs)"

definition relabel :: "string \<Rightarrow> string" where
  "relabel s =
     str_replace ''4th'' ''4'' (str_replace ''3rd'' ''3'' (str_replace ''2nd'' ''2''
       (str_replace ''1st'' ''1'' (str_replace '' Year Semester '' ''Y S'' s))))"

text \<open>
  \<^verbatim>\<open>pd.Categorical(values, categories, ordered=True)\<close>: a value outside the
  categories becomes missing; sorting orders by the position of the category, the
  missing ones last.
\<close>

definition categorical :: "string list \<Rightarrow> string \<Rightarrow> string option" where
  "categorical cats s = (if s \<in> set cats then Some s else None)"

fun index_of :: "'a list \<Rightarrow> 'a \<Rightarrow> nat" where
  "index_of [] x = 0"
| "index_of (y # ys) x = (if x = y then 0 else Suc (index_of ys x))"

fun category_code :: "string list \<Rightarrow> string option \<Rightarrow> nat" where
  "category_code cats None = length cats"
| "category_code cats (Some s) = index_of cats s"

fun coerce_cols :: "(string \<Rightarrow> rat option) \<Rightarrow> string list \<Rightarrow> frame \<Rightarrow> error + frame" where
  "coerce_cols to_num [] data = Inr data"
| "coerce_cols to_num (col # cols) data =
     (case getitem data col of
        Inl e \<Rightarrow> Inl e
      | Inr c \<Rightarrow> coerce_cols to_num cols (setitem data col (map (to_numeric to_num) c)))"

text \<open>
  \<^verbatim>\<open>clean_gpa_data(data)\<close> assigns the coerced columns to its argument; the result is
  the table of means and the argument as it is afterwards.
\<close>

definition clean_gpa_data ::
  "(string \<Rightarrow> rat option) \<Rightarrow> frame \<Rightarrow> error + ((string option \<times> cell) list \<times> frame)" where
  "clean_gpa_data to_num data0 =
     (case coerce_cols to_num gpa_cols data0 of
        Inl e \<Rightarrow> Inl e
      | Inr data \<Rightarrow>
          (case getitems data gpa_cols of
             Inl e \<Rightarrow> Inl e
           | Inr cols \<Rightarrow>
               (case means cols of
                  Inl e \<Rightarrow> Inl e
                | Inr ms \<Rightarrow>
                    (let gpa_means = zip gpa_cols ms;
                         renamed = map (\<lambda>(s, m). (relabel s, m)) gpa_means;
                         cat = map (\<lambda>(s, m). (categorical semester_order s, m)) renamed;
                         sorted_means = sort_key (\<lambda>(s, m). category_code semester_order s) cat
                     in Inr (filter (\<lambda>(s, m). m \<noteq> NaN) sorted_means, data)))))"

definition gender_counts :: "frame \<Rightarrow> error + (cell \<times> nat) list" where
  "gender_counts data =
     (case getitem data ''Gender'' of Inl e \<Rightarrow> Inl e | Inr gender \<Rightarrow> Inr (value_counts gender))"

definition plot_gender_distribution :: chart_builder where
  "plot_gender_distribution data =
     (case gender_counts data of
        Inl e \<Rightarrow> (Inl e, data)
      | Inr counts \<Rightarrow>
          (Inr [Chart ''Gender Distribution in Arts Faculty'' (Counts counts),
                Info '' The people who took this survey are mostly women, making up about 76% of the total. This means the overall results mainly reflect the female students' experience in the faculty. So, the opinions of male students are less represented in this feedback.''],
           data))"

definition plot_gpa_trend :: "(string \<Rightarrow> rat option) \<Rightarrow> chart_builder" where
  "plot_gpa_trend to_num data =
     (case clean_gpa_data to_num (copy data) of
        Inl e \<Rightarrow> (Inl e, data)
      | Inr (gpa_means, data_copy) \<Rightarrow>
          (Inr [Chart ''Mean GPA Trend Across Academic Semesters (Arts Faculty)'' (Trend gpa_means),
                Info ''Student grades are very consistent over their four years, never going up or down much. This shows a stable academic environment where students maintain a steady performance level. The faculty's grading seems predictable, and students aren't facing sudden difficulty changes.''],
           data))"

definition expectation_cols :: "string list" where
  "expectation_cols =
     [''Q1 [What was your expectation about the University as related to quality of education?]'',
      ''Q2 [What was your expectation about the University as related to quality of Faculty?]'',
      ''Q3 [What was your expectation about the University as related to quality of resources?]'',
      ''Q4 [What was your expectation about the University as related to quality of learning environment?]'']"

definition satisfaction_col :: string where
  "satisfaction_col = ''Q5 [To what extent your expectation was met?]''"

text \<open>
  \<^verbatim>\<open>melt\<close> stacks the chosen columns into one long table, one row per cell with
  the column's name, numbered from 0; \<^verbatim>\<open>dropna()\<close> then drops the rows of the long
  table whose score is missing and keeps the numbers of the others.
\<close>

definition melt :: "(string \<times> cell list) list \<Rightarrow> (nat \<times> string \<times> cell) list" where
  "melt vars = enumerate 0 (concat (map (\<lambda>(name, c). map (\<lambda>v. (name, v)) c) vars))"

definition dropna :: "(nat \<times> string \<times> cell) list \<Rightarrow> (nat \<times> string \<times> cell) list" where
  "dropna rows = filter (\<lambda>(i, metric, score). score \<noteq> NaN) rows"

definition rename_metric :: "string \<Rightarrow> string" where
  "rename_metric m =
     (if m = ''Mean Expectation'' then ''Average Initial Expectation''
      else if m = satisfaction_col then ''Expectation Met Score'' else m)"

text \<open>The long table handed to the box plot, and the table after the assignment.\<close>

definition expectation_plot_data ::
  "frame \<Rightarrow> (error + (nat \<times> string \<times> cell) list) \<times> frame" where
  "expectation_plot_data data =
     (case getitems data expectation_cols of
        Inl e \<Rightarrow> (Inl e, data)
      | Inr cols \<Rightarrow>
          (case mean_axis1 (nrows data) cols of
             Inl e \<Rightarrow> (Inl e, data)
           | Inr mean_expectation \<Rightarrow>
               (let data1 = setitem data ''Mean Expectation'' mean_expectation in
                (case getitem data1 satisfaction_col of
                   Inl e \<Rightarrow> (Inl e, data1)
                 | Inr satisfaction \<Rightarrow>
                     (Inr (map (\<lambda>(i, metric, score). (i, rename_metric metric, score))
                            (dropna (melt [(''Mean Expectation'', mean_expectation),
                                           (satisfaction_col, satisfaction)]))),
                      data1)))))"

definition plot_expectation_comparison :: chart_builder where
  "plot_expectation_comparison data =
     (case expectation_plot_data data of
        (Inl e, data1) \<Rightarrow> (Inl e, data1)
      | (Inr plot_data, data1) \<Rightarrow>
          (Inr [Chart ''Comparison of Initial Expectation and Expectation Met Score'' (Scores plot_data),
                Info ''The faculty has done a great job which is the students felt their initial hopes and expectations were met and then some. They were already optimistic coming in, but the program delivered even slightly better than expected. This is a very positive sign that the faculty is successfully living up to its promises.''],
           data1))"

definition aspect_column :: string where
  "aspect_column = ''Q7. In your opinion,the best aspect of the program is''"

definition best_aspect_counts :: "frame \<Rightarrow> error + (cell \<times> nat) list" where
  "best_aspect_counts data =
     (case getitem data aspect_column of
        Inl e \<Rightarrow> Inl e
      | Inr aspects \<Rightarrow> Inr (head 5 (value_counts aspects)))"

definition plot_top_best_aspects :: chart_builder where
  "plot_top_best_aspects data =
     (case best_aspect_counts data of
        Inl e \<Rightarrow> (Inl e, data)
      | Inr counts \<Rightarrow>
          (Inr [Chart ''Top 5 Best Aspects of the Program (According to Students)'' (Counts counts),
                Info ''The best things about this program are the professors and the way they teach. These two factors are the program's biggest strengths according to the students. Everything else, like resources or facilities, is seen as much less important than the quality of the teaching staff.''],
           data))"

text \<open>
  \<^verbatim>\<open>groupby('Gender')\<close> makes one group for each value of the column that is not
  missing, the groups in ascending order of the value (numbers by size, texts by
  character code), each holding the rows with that value. The function applied to a
  group divides the number of its \<^verbatim>\<open>'Yes'\<close> cells in a column by the number of its
  rows. A table with no group gives no row.
\<close>

fun cell_key :: "cell \<Rightarrow> nat \<times> rat \<times> string" where
  "cell_key NaN = (2, 0, [])"
| "cell_key (Num q) = (0, q, [])"
| "cell_key (Str s) = (1, 0, s)"

definition group_keys :: "cell list \<Rightarrow> cell list" where
  "group_keys by = sort_key cell_key (remdups (filter (\<lambda>k. k \<noteq> NaN) by))"

definition proportion_yes :: "cell list \<Rightarrow> cell list \<Rightarrow> cell \<Rightarrow> rat" where
  "proportion_yes by answers g =
     of_nat (length (filter (\<lambda>(k, a). k = g \<and> a = Str ''Yes'') (zip by answers)))
       / of_nat (length (filter (\<lambda>(k, a). k = g) (zip by answers)))"

definition q_edu :: string where
  "q_edu = ''Do you feel that the quality of education improved at EU over the last year?''"

definition q_img :: string where
  "q_img = ''Do you feel that the image of the University improved over the last year?''"

definition rename_question :: "string \<Rightarrow> string" where
  "rename_question q =
     (if q = q_edu then ''Quality of Education Improved''
      else if q = q_img then ''University Image Improved'' else q)"

definition improvement_melted :: "frame \<Rightarrow> error + (cell \<times> string \<times> rat) list" where
  "improvement_melted data =
     (case getitem data ''Gender'' of
        Inl e \<Rightarrow> Inl e
      | Inr gender \<Rightarrow>
          (case getitem data q_edu of
             Inl e \<Rightarrow> Inl e
           | Inr edu \<Rightarrow>
               (case getitem data q_img of
                  Inl e \<Rightarrow> Inl e
                | Inr img \<Rightarrow>
                    (let improvement_df =
                           map (\<lambda>g. (g, proportion_yes gender edu g, proportion_yes gender img g))
                             (group_keys gender);
                         melted =
                           map (\<lambda>(g, p_edu, p_img). (g, q_edu, p_edu)) improvement_df @
                           map (\<lambda>(g, p_edu, p_img). (g, q_img, p_img)) improvement_df
                     in Inr (map (\<lambda>(g, q, p). (g, rename_question q, p)) melted)))))"

definition plot_improvement_perception_by_gender :: chart_builder where
  "plot_improvement_perception_by_gender data =
     (case improvement_melted data of
        Inl e \<Rightarrow> (Inl e, data)
      | Inr melted \<Rightarrow>
          (Inr [Chart ''Perception of University Improvement: By Gender'' (Proportions melted),
                Info ''Men and women see the university's progress differently. More men think the quality of education is getting better, while more women think the university's reputation is improving. This highlights that the two groups are noticing and prioritizing different types of positive changes at the university.''],
           data))"

text \<open>
  \<^verbatim>\<open>plot_policy_vs_implementation_ratings\<close> picks the columns by the start of their
  names and assigns the coerced columns back to the table it was given.
\<close>

definition coerce_where :: "(string \<Rightarrow> rat option) \<Rightarrow> (string \<Rightarrow> bool) \<Rightarrow> frame \<Rightarrow> frame" where
  "coerce_where to_num P data =
     map (\<lambda>(name, c). if P name then (name, map (to_numeric to_num) c) else (name, c)) data"

definition mean_of_row_means :: "frame \<Rightarrow> string list \<Rightarrow> error + cell" where
  "mean_of_row_means data cols =
     (case getitems data cols of
        Inl e \<Rightarrow> Inl e
      | Inr cs \<Rightarrow> (case mean_axis1 (nrows data) cs of Inl e \<Rightarrow> Inl e | Inr ms \<Rightarrow> mean ms))"

definition plot_policy_vs_implementation_ratings :: "(string \<Rightarrow> rat option) \<Rightarrow> chart_builder" where
  "plot_policy_vs_implementation_ratings to_num data =
     (let area_evaluation_cols = filter (prefix ''Area of Evaluation'') (map fst data);
          item_cols = filter (prefix ''Item'') (map fst data);
          data1 = coerce_where to_num (prefix ''Area of Evaluation'') data;
          data2 = coerce_where to_num (prefix ''Item'') data1
      in (case mean_of_row_means data2 area_evaluation_cols of
            Inl e \<Rightarrow> (Inl e, data2)
          | Inr avg_area \<Rightarrow>
              (case mean_of_row_means data2 item_cols of
                 Inl e \<Rightarrow> (Inl e, data2)
               | Inr avg_item \<Rightarrow>
                   (Inr [Chart ''Average Student Rating: Policy vs. Implementation Items (Scale: 1-5)''
                           (Ratings [(''Academic/Administrative Policy'', avg_area),
                                     (''Specific Teaching/Support Items'', avg_item)]),
                         Info ''Students approve of the written rules and plans (policies) more than they approve of how those rules are carried out in reality. There's a small gap here. The university should focus on improving the delivery of day-to-day things, like better resources or facilities, to match the quality of its policies.''],
                    data2))))"

subsection \<open>The script \<^verbatim>\<open>studentsurvey.py\<close>\<close>

text \<open>
  Python compiles a whole file before it runs any statement of it. Line 26 of
  \<^verbatim>\<open>studentsurvey.py\<close>, the call for the PLO 5 tile, has the character U+00A0
  (a no-break space, the bytes C2 A0) after a comma, outside every string literal.
  Python takes that character neither for white space nor for part of a name and
  rejects the file with \<^verbatim>\<open>SyntaxError: invalid non-printable character U+00A0\<close>.
  The line is given here byte for byte; its string literals are double-quoted and
  have no escapes, so a quote character switches between inside and outside.
\<close>

definition line_26 :: string where
  \<open>line_26 =
     ''col4.metric(label="PLO 5", value=f"4.3", help="PLO 5: Communication Skill",'' @
     [CHR 0xC2, CHR 0xA0] @ ''border=True)''\<close>

fun nbsp_outside_string :: "bool \<Rightarrow> string \<Rightarrow> bool" where
  "nbsp_outside_string inside [] = False"
| "nbsp_outside_string inside (c # cs) =
     (if c = CHR 0x22 then nbsp_outside_string (\<not> inside) cs
      else if \<not> inside \<and> c = CHR 0xC2 \<and> (case cs of [] \<Rightarrow> False | d # ds \<Rightarrow> d = CHR 0xA0)
      then True
      else nbsp_outside_string inside cs)"

text \<open>
  So a run of the script as it is shipped executes none of its statements: no
  heading, no metric tile, no call of \<^verbatim>\<open>load_data\<close>, no chart. It emits no element,
  ends with the syntax error and leaves the memo table and the network alone. The
  functions of the file are modelled above from their text.
\<close>

definition studentsurvey :: "network \<Rightarrow> (string \<Rightarrow> rat option) \<Rightarrow> world \<Rightarrow> page \<times> world" where
  "studentsurvey net to_num w =
     (\<lparr>elements = [], outcome = Raised (SyntaxError ''invalid non-printable character U+00A0'')\<rparr>, w)"

subsection \<open>Reading a page\<close>

fun is_Metric :: "element \<Rightarrow> bool" where
  "is_Metric (Metric label v help) = True"
| "is_Metric el = False"

text \<open>The elements that show the loaded data: the preview table and the charts.\<close>

fun shows_data :: "element \<Rightarrow> bool" where
  "shows_data (Dataframe t) = True"
| "shows_data (Chart title d) = True"
| "shows_data el = False"

section \<open>Properties\<close>

subsection \<open>Predicates and sample inputs\<close>

text \<open>
  Every entry of the memo table was returned by \<^verbatim>\<open>load_data\<close>: a table with nothing
  emitted, or \<^verbatim>\<open>None\<close> with the one error box.
\<close>

definition cache_ok :: "world \<Rightarrow> bool" where
  "cache_ok w = (\<forall>url v msgs. cache w url = Some (v, msgs) \<longrightarrow>
      (case v of None \<Rightarrow> (\<exists>m. msgs = [ErrorBox m]) | Some t \<Rightarrow> msgs = []))"

text \<open>The order in which the distinct values of a column first appear.\<close>

fun first_appearance :: "'a list \<Rightarrow> 'a list" where
  "first_appearance [] = []"
| "first_appearance (x # xs) = x # removeAll x (first_appearance xs)"

text \<open>The mean of a semester column after coercion, missing when no number is left.\<close>

definition semester_mean :: "(string \<Rightarrow> rat option) \<Rightarrow> frame \<Rightarrow> string \<Rightarrow> cell" where
  "semester_mean to_num data col =
     (case map_of data col of None \<Rightarrow> NaN | Some c \<Rightarrow> nanmean (map (to_numeric to_num) c))"

text \<open>
  Sample inputs: an endpoint that is down, one that fails at the first fetch of the
  process and serves the file from then on, and small survey tables.
\<close>

definition net_down :: network where
  "net_down n url = Inl (LoadError ''HTTP Error 404: Not Found'')"

definition survey0 :: frame where
  "survey0 = [(''Gender'', [Str ''F'', Str ''F'', Str ''M''])]"

definition net_up :: network where
  "net_up n url = Inr survey0"

definition net_flaky :: network where
  "net_flaky n url = (if n = 0 then Inl (LoadError ''timed out'') else Inr survey0)"

definition six_aspects :: frame where
  "six_aspects =
     [(''Q7. In your opinion,the best aspect of the program is'',
       [Str ''a'', Str ''b'', Str ''c'', Str ''d'', Str ''e'', Str ''f''])]"

definition tied_aspects :: frame where
  "tied_aspects =
     [(''Gender'', [Str ''F'', NaN, Str ''M'', Str ''F'', Str ''F'']),
      (''Q7. In your opinion,the best aspect of the program is'',
       [Str ''b'', Str ''a'', Str ''a'', Str ''b'', Str ''c''])]"

definition improvement_sample :: frame where
  "improvement_sample =
     [(''Gender'', [Str ''M'', Str ''F'', NaN, Str ''F'']),
      (''Do you feel that the quality of education improved at EU over the last year?'',
       [Str ''Yes'', Str ''No'', Str ''Yes'', Str ''Yes'']),
      (''Do you feel that the image of the University improved over the last year?'',
       [Str ''No'', NaN, Str ''Yes'', Str ''Yes''])]"

definition to_num_sample :: "string \<Rightarrow> rat option" where
  "to_num_sample s = (if s = ''3.5'' then Some (7 / 2) else None)"

definition gpa_sample :: frame where
  "gpa_sample =
     map (\<lambda>c. (c, if c = ''1st Year Semester 1'' then [Str ''3.5'', Num 3]
                   else if c = ''2nd Year Semester 2'' then [Num 2, Str ''abc'']
                   else [Str ''n/a'', NaN])) gpa_cols"

definition gpa_text :: frame where
  "gpa_text = map (\<lambda>c. (c, [Str ''n/a'', Str ''absent''])) gpa_cols"

definition expectation_sample :: frame where
  "expectation_sample =
     [(''Q1 [What was your expectation about the University as related to quality of education?]'',
       [NaN, Num 3]),
      (''Q2 [What was your expectation about the University as related to quality of Faculty?]'',
       [Num 4, Num 3]),
      (''Q3 [What was your expectation about the University as related to quality of resources?]'',
       [Num 4, Num 3]),
      (''Q4 [What was your expectation about the University as related to quality of learning environment?]'',
       [Num 4, Num 3]),
      (''Q5 [To what extent your expectation was met?]'', [Num 5, NaN])]"

definition policy_sample :: frame where
  "policy_sample =
     [(''Area of Evaluation [Admission]'', [Str ''good'', Num 4]),
      (''Item 1'', [Num 5, Num 3])]"

definition expectation_q1_sample :: frame where
  "expectation_q1_sample =
     [(''Q1 [What was your expectation about the University as related to quality of education?]'',
       [NaN, Num 3]),
      (''Q2 [What was your expectation about the University as related to quality of Faculty?]'',
       [Num 4, Num 3]),
      (''Q3 [What was your expectation about the University as related to quality of resources?]'',
       [Num 4, Num 3]),
      (''Q4 [What was your expectation about the University as related to quality of learning environment?]'',
       [Num 4, Num 3]),
      (''Q5 [To what extent your expectation was met?]'', [Num 5, Num 2])]"

subsection \<open>The loader and its memo table\<close>

lemma load_data_body_returns:
  "\<exists>v msgs. fst (load_data_body net url w) = (Inr v, msgs) \<and>
     (case v of None \<Rightarrow> (\<exists>m. msgs = [ErrorBox m]) | Some t \<Rightarrow> msgs = [])"
  by (cases "net (length (fetch_log w)) url") (simp_all add: load_data_body_def read_csv_def)

lemma load_data_body_world:
  "snd (load_data_body net url w) = w\<lparr>fetch_log := fetch_log w @ [url]\<rparr>"
  by (cases "net (length (fetch_log w)) url") (simp_all add: load_data_body_def read_csv_def)

lemma load_data_hit:
  "cache w url = Some (v, msgs) \<Longrightarrow> load_data net url w = ((Inr v, msgs), w)"
  by (simp add: load_data_def cache_data_def)

lemma load_data_miss:
  assumes "cache w url = None"
  shows "\<exists>v msgs. load_data net url w =
           ((Inr v, msgs), w\<lparr>fetch_log := fetch_log w @ [url], cache := (cache w)(url \<mapsto> (v, msgs))\<rparr>)
         \<and> fst (load_data_body net url w) = (Inr v, msgs)"
proof -
  obtain v msgs where b: "fst (load_data_body net url w) = (Inr v, msgs)"
    using load_data_body_returns by blast
  have "load_data_body net url w = ((Inr v, msgs), w\<lparr>fetch_log := fetch_log w @ [url]\<rparr>)"
    using b load_data_body_world [of net url w] by (simp add: prod_eq_iff)
  then show ?thesis using assms b
    by (simp add: load_data_def cache_data_def)
qed

lemma load_data_stores:
  "\<exists>v msgs. fst (load_data net url w) = (Inr v, msgs) \<and> cache (snd (load_data net url w)) url = Some (v, msgs)"
proof (cases "cache w url")
  case None
  from load_data_miss [OF None, of net] show ?thesis by auto
next
  case (Some r)
  then show ?thesis by (cases r) (simp add: load_data_hit)
qed

lemma load_data_keeps:
  assumes "cache w url = Some r"
  shows "cache (snd (load_data net u w)) url = Some r"
proof (cases "cache w u")
  case None
  then have "u \<noteq> url" using assms by auto
  with load_data_miss [OF None, of net] assms show ?thesis by auto
next
  case (Some r')
  then show ?thesis using assms by (cases r') (simp add: load_data_hit)
qed

lemma loads_keeps:
  "cache w url = Some r \<Longrightarrow> cache (loads net urls w) url = Some r"
  by (induction urls arbitrary: w) (simp_all add: load_data_keeps)

lemma load_data_cache_ok:
  assumes "cache_ok w"
  shows "cache_ok (snd (load_data net u w))"
proof (cases "cache w u")
  case None
  from load_data_miss [OF None, of net] obtain v msgs where
    l: "load_data net u w = ((Inr v, msgs), w\<lparr>fetch_log := fetch_log w @ [u], cache := (cache w)(u \<mapsto> (v, msgs))\<rparr>)"
    and b: "fst (load_data_body net u w) = (Inr v, msgs)" by blast
  from load_data_body_returns [of net u w] b
  have "case v of None \<Rightarrow> (\<exists>m. msgs = [ErrorBox m]) | Some t \<Rightarrow> msgs = []" by simp
  with assms l show ?thesis by (auto simp: cache_ok_def)
next
  case (Some r')
  then show ?thesis using assms by (cases r') (simp add: load_data_hit)
qed

lemma cache_ok_fresh: "cache_ok fresh"
  by (simp add: cache_ok_def fresh_def)

lemma cache_ok_loads: "cache_ok w \<Longrightarrow> cache_ok (loads net urls w)"
  by (induction urls arbitrary: w) (simp_all add: load_data_cache_ok)

lemma load_data_result:
  assumes "cache_ok w"
  shows "\<exists>v msgs. fst (load_data net url w) = (Inr v, msgs) \<and>
     (case v of None \<Rightarrow> (\<exists>m. msgs = [ErrorBox m]) | Some t \<Rightarrow> msgs = [])"
proof -
  from load_data_stores [of net url w] obtain v msgs where
    "fst (load_data net url w) = (Inr v, msgs)" "cache (snd (load_data net url w)) url = Some (v, msgs)"
    by blast
  with load_data_cache_ok [OF assms, of net url] show ?thesis
    by (auto simp: cache_ok_def)
qed

subsection \<open>What a page shows\<close>

lemma line_26_rejected: "nbsp_outside_string False line_26"
  by (simp add: line_26_def)

lemma studentsurvey_page:
  "studentsurvey net to_num w =
     (\<lparr>elements = [], outcome = Raised (SyntaxError ''invalid non-printable character U+00A0'')\<rparr>, w)"
  by (simp add: studentsurvey_def)

text \<open>
  Claim C9. The shipped \<^verbatim>\<open>studentsurvey.py\<close> shows no metric tile. The four tiles
  with the values 3.3, 3.5, 4.0 and 4.3 are literals of lines 23 to 26, but line 26, the
  call for the PLO 5 tile, has the character U+00A0 outside a string: Python rejects
  the file, and a run emits no element and ends with the syntax error, with the
  endpoint serving the survey and with the endpoint down.
\<close>

theorem studentsurvey_shows_no_metric_tiles:
  "nbsp_outside_string False line_26 \<and>
   filter is_Metric (elements (fst (studentsurvey net_up (\<lambda>s. None) fresh))) = [] \<and>
   outcome (fst (studentsurvey net_up (\<lambda>s. None) fresh)) =
     Raised (SyntaxError ''invalid non-printable character U+00A0'') \<and>
   filter is_Metric (elements (fst (studentsurvey net_down (\<lambda>s. None) fresh))) = [] \<and>
   outcome (fst (studentsurvey net_down (\<lambda>s. None) fresh)) =
     Raised (SyntaxError ''invalid non-printable character U+00A0'')"
  by (simp add: line_26_rejected studentsurvey_page)

lemma load_data_failure:
  assumes "cache w url = None" and "net (length (fetch_log w)) url = Inl e"
  shows "load_data net url w =
    ((Inr None, [ErrorBox (''An error occurred while loading data: '' @ str e)]),
     w\<lparr>fetch_log := fetch_log w @ [url],
       cache := (cache w)(url \<mapsto> (None, [ErrorBox (''An error occurred while loading data: '' @ str e)]))\<rparr>)"
  using assms by (simp add: load_data_def cache_data_def load_data_body_def read_csv_def)

text \<open>
  Claim C3. In a process that has called the loader any number of times, a call of
  \<^verbatim>\<open>load_data\<close> with any locator returns a value, a table or \<^verbatim>\<open>None\<close>, and never
  raises; with \<^verbatim>\<open>None\<close> comes exactly one error box, and a fetch that raises gives
  \<^verbatim>\<open>None\<close> with the exception's message in the box. When the loader returns \<^verbatim>\<open>None\<close>
  to \<^verbatim>\<open>tuto_sv.py\<close>, the script skips everything that depends on the table: the page
  is the static heading, the error box and the static sidebar note, with no preview
  table and no chart; when the loader returns a table, the page does show the preview.
  The shipped \<^verbatim>\<open>studentsurvey.py\<close> is rejected by Python before its loader is ever
  called, so it renders nothing at all, neither a chart nor a part of the page.
\<close>

theorem load_failure_halts_rendering:
  "(\<exists>v msgs. fst (load_data net url (loads net urls fresh)) = (Inr v, msgs) \<and>
      (v = None \<longrightarrow> (\<exists>m. msgs = [ErrorBox m]))) \<and>
   (cache (loads net urls fresh) url = None \<and>
    net (length (fetch_log (loads net urls fresh))) url = Inl e \<longrightarrow>
      fst (load_data net url (loads net urls fresh)) =
        (Inr None, [ErrorBox (''An error occurred while loading data: '' @ str e)])) \<and>
   (fst (load_data net URL (loads net urls fresh)) = (Inr None, msgs) \<longrightarrow>
      (\<exists>m. msgs = [ErrorBox m]) \<and>
      fst (tuto_sv net (loads net urls fresh)) =
        \<lparr>elements = tuto_sv_preamble @ msgs @ [tuto_sv_sidebar], outcome = Completed\<rparr> \<and>
      \<not> list_ex shows_data (elements (fst (tuto_sv net (loads net urls fresh))))) \<and>
   (fst (load_data net URL (loads net urls fresh)) = (Inr (Some t), msgs) \<longrightarrow>
      Dataframe (frame_head 5 t) \<in> set (elements (fst (tuto_sv net (loads net urls fresh)))) \<and>
      list_ex shows_data (elements (fst (tuto_sv net (loads net urls fresh))))) \<and>
   elements (fst (studentsurvey net to_num (loads net urls fresh))) = [] \<and>
   \<not> list_ex shows_data (elements (fst (studentsurvey net to_num (loads net urls fresh))))"
proof -
  let ?w = "loads net urls fresh"
  have ok: "cache_ok ?w" by (simp add: cache_ok_loads cache_ok_fresh)
  have 1: "\<exists>v msgs. fst (load_data net url ?w) = (Inr v, msgs) \<and>
      (v = None \<longrightarrow> (\<exists>m. msgs = [ErrorBox m]))"
    using load_data_result [OF ok, of net url] by (auto split: option.splits)
  have 2: "cache ?w url = None \<and> net (length (fetch_log ?w)) url = Inl e \<longrightarrow>
      fst (load_data net url ?w) =
        (Inr None, [ErrorBox (''An error occurred while loading data: '' @ str e)])"
    by (simp add: load_data_failure)
  have 3: "fst (load_data net URL ?w) = (Inr None, msgs) \<longrightarrow>
      (\<exists>m. msgs = [ErrorBox m]) \<and>
      fst (tuto_sv net ?w) =
        \<lparr>elements = tuto_sv_preamble @ msgs @ [tuto_sv_sidebar], outcome = Completed\<rparr> \<and>
      \<not> list_ex shows_data (elements (fst (tuto_sv net ?w)))"
  proof
    assume l: "fst (load_data net URL ?w) = (Inr None, msgs)"
    from load_data_result [OF ok, of net URL] l obtain m where m: "msgs = [ErrorBox m]"
      by (auto split: option.splits)
    from l obtain w' where l': "load_data net URL ?w = ((Inr None, msgs), w')"
      by (cases "load_data net URL ?w") simp
    have t: "fst (tuto_sv net ?w) =
        \<lparr>elements = tuto_sv_preamble @ msgs @ [tuto_sv_sidebar], outcome = Completed\<rparr>"
      using l' by (simp add: tuto_sv_def)
    have "\<not> list_ex shows_data (tuto_sv_preamble @ msgs @ [tuto_sv_sidebar])"
      using m by (simp add: tuto_sv_preamble_def tuto_sv_sidebar_def)
    then show "(\<exists>m. msgs = [ErrorBox m]) \<and>
      fst (tuto_sv net ?w) =
        \<lparr>elements = tuto_sv_preamble @ msgs @ [tuto_sv_sidebar], outcome = Completed\<rparr> \<and>
      \<not> list_ex shows_data (elements (fst (tuto_sv net ?w)))"
      using t m by simp
  qed
  have 4: "fst (load_data net URL ?w) = (Inr (Some t), msgs) \<longrightarrow>
      Dataframe (frame_head 5 t) \<in> set (elements (fst (tuto_sv net ?w))) \<and>
      list_ex shows_data (elements (fst (tuto_sv net ?w)))"
  proof
    assume l: "fst (load_data net URL ?w) = (Inr (Some t), msgs)"
    then obtain w' where l': "load_data net URL ?w = ((Inr (Some t), msgs), w')"
      by (cases "load_data net URL ?w") simp
    have d: "Dataframe (frame_head 5 t) \<in> set (elements (fst (tuto_sv net ?w)))"
      using l' by (cases "getitem t ''Gender''") (simp_all add: tuto_sv_def)
    moreover have "shows_data (Dataframe (frame_head 5 t))" by simp
    ultimately have "list_ex shows_data (elements (fst (tuto_sv net ?w)))"
      unfolding list_ex_iff by (rule bexI [rotated])
    with d show "Dataframe (frame_head 5 t) \<in> set (elements (fst (tuto_sv net ?w))) \<and>
      list_ex shows_data (elements (fst (tuto_sv net ?w)))" ..
  qed
  have 5: "elements (fst (studentsurvey net to_num ?w)) = []"
    by (simp add: studentsurvey_page)
  then have 6: "\<not> list_ex shows_data (elements (fst (studentsurvey net to_num ?w)))"
    by simp
  from 1 2 3 4 5 6 show ?thesis by (intro conjI)
qed

theorem load_failure_halts_rendering_witness:
  "fst (load_data net_down URL fresh) =
     (Inr None, [ErrorBox ''An error occurred while loading data: HTTP Error 404: Not Found'']) \<and>
   fst (tuto_sv net_down fresh) =
     \<lparr>elements = tuto_sv_preamble @
        [ErrorBox ''An error occurred while loading data: HTTP Error 404: Not Found'', tuto_sv_sidebar],
      outcome = Completed\<rparr> \<and>
   list_ex shows_data (elements (fst (tuto_sv net_down fresh))) = False \<and>
   list_ex shows_data (elements (fst (tuto_sv net_up fresh))) = True \<and>
   elements (fst (studentsurvey net_down (\<lambda>s. None) fresh)) = []"
proof -
  have c: "cache (loads net_down [] fresh) URL = None \<and>
      net_down (length (fetch_log (loads net_down [] fresh))) URL = Inl (LoadError ''HTTP Error 404: Not Found'')"
    by (simp add: fresh_def net_down_def)
  have u: "fst (load_data net_up URL (loads net_up [] fresh)) = (Inr (Some survey0), [])"
    by (simp add: load_data_def cache_data_def load_data_body_def read_csv_def fresh_def net_up_def)
  from load_failure_halts_rendering [of net_down URL "[]" "LoadError ''HTTP Error 404: Not Found''"
      "[ErrorBox ''An error occurred while loading data: HTTP Error 404: Not Found'']" survey0
      "\<lambda>s. None"] c
  have d: "fst (load_data net_down URL fresh) =
     (Inr None, [ErrorBox ''An error occurred while loading data: HTTP Error 404: Not Found'']) \<and>
   fst (tuto_sv net_down fresh) =
     \<lparr>elements = tuto_sv_preamble @
        [ErrorBox ''An error occurred while loading data: HTTP Error 404: Not Found'', tuto_sv_sidebar],
      outcome = Completed\<rparr> \<and>
   list_ex shows_data (elements (fst (tuto_sv net_down fresh))) = False \<and>
   elements (fst (studentsurvey net_down (\<lambda>s. None) fresh)) = []"
    by (auto simp: tuto_sv_preamble_def tuto_sv_sidebar_def)
  from load_failure_halts_rendering [of net_up URL "[]" "LoadError []" "[]" survey0 "\<lambda>s. None"] u
  have "list_ex shows_data (elements (fst (tuto_sv net_up fresh))) = True"
    by simp
  with d show ?thesis by (elim conjE) (intro conjI, assumption+)
qed

text \<open>
  Claim C5. After a call of the loader with a locator, any later call with the same
  locator, after any number of calls with any locators and whatever the network does
  by then, returns the same result as the first and fetches nothing: the fetch log is
  as it was before the call, and the entry of the memo table is the one the first call
  left.
\<close>

theorem load_data_cache_hit:
  "fst (load_data net' url (loads net' urls (snd (load_data net url w)))) = fst (load_data net url w) \<and>
   fetch_log (snd (load_data net' url (loads net' urls (snd (load_data net url w))))) =
     fetch_log (loads net' urls (snd (load_data net url w))) \<and>
   cache (snd (load_data net' url (loads net' urls (snd (load_data net url w))))) url =
     cache (snd (load_data net url w)) url"
proof -
  from load_data_stores [of net url w] obtain v msgs where
    r: "fst (load_data net url w) = (Inr v, msgs)"
    and c: "cache (snd (load_data net url w)) url = Some (v, msgs)" by blast
  let ?W = "loads net' urls (snd (load_data net url w))"
  from c have "cache ?W url = Some (v, msgs)" by (rule loads_keeps)
  then have "load_data net' url ?W = ((Inr v, msgs), ?W)" by (rule load_data_hit)
  with r c \<open>cache ?W url = Some (v, msgs)\<close> show ?thesis by simp
qed

text \<open>
  Claim C10. A failed load is stored like any other result: when the locator is not
  in the memo table and the fetch raises, \<^verbatim>\<open>load_data\<close> returns \<^verbatim>\<open>None\<close> with the
  error box, and every later call with that locator in the same process returns
  \<^verbatim>\<open>None\<close> with the same box without fetching, whatever the network would answer
  by then.
\<close>

theorem load_data_caches_failure:
  assumes "cache w url = None" and "net (length (fetch_log w)) url = Inl e"
  shows "fst (load_data net url w) =
           (Inr None, [ErrorBox (''An error occurred while loading data: '' @ str e)]) \<and>
         fst (load_data net' url (loads net' urls (snd (load_data net url w)))) =
           (Inr None, [ErrorBox (''An error occurred while loading data: '' @ str e)]) \<and>
         fetch_log (snd (load_data net' url (loads net' urls (snd (load_data net url w))))) =
           fetch_log (loads net' urls (snd (load_data net url w)))"
proof -
  let ?r = "(None, [ErrorBox (''An error occurred while loading data: '' @ str e)])"
  let ?W = "loads net' urls (snd (load_data net url w))"
  have r: "fst (load_data net url w) = (Inr None, snd ?r)"
    and c: "cache (snd (load_data net url w)) url = Some ?r"
    using assms by (simp_all add: load_data_failure)
  from c have "cache ?W url = Some ?r" by (rule loads_keeps)
  then have "load_data net' url ?W = ((Inr None, snd ?r), ?W)" by (simp add: load_data_hit)
  with r show ?thesis by simp
qed

theorem load_data_caches_failure_witness:
  "net_flaky 1 URL = Inr survey0 \<and>
   fst (load_data net_flaky URL fresh) =
     (Inr None, [ErrorBox ''An error occurred while loading data: timed out'']) \<and>
   fst (load_data net_flaky URL (loads net_flaky [URL, URL] (snd (load_data net_flaky URL fresh)))) =
     (Inr None, [ErrorBox ''An error occurred while loading data: timed out''])"
proof -
  have "cache fresh URL = None" and "net_flaky (length (fetch_log fresh)) URL = Inl (LoadError ''timed out'')"
    by (simp_all add: fresh_def net_flaky_def)
  with load_data_caches_failure [of fresh URL net_flaky "LoadError ''timed out''" net_flaky "[URL, URL]"]
  show ?thesis by (simp add: net_flaky_def)
qed

theorem load_data_cache_hit_witness:
  "fst (load_data net_flaky URL (snd (load_data net_flaky URL (snd (load_data net_flaky URL fresh))))) =
     fst (load_data net_flaky URL fresh) \<and>
   fetch_log (snd (load_data net_flaky URL (snd (load_data net_flaky URL (snd (load_data net_flaky URL fresh)))))) = [URL]"
proof -
  have "fetch_log (snd (load_data net_flaky URL fresh)) = [URL]"
    by (simp add: load_data_def cache_data_def load_data_body_def read_csv_def fresh_def net_flaky_def)
  moreover have "fetch_log (snd (load_data net_flaky URL (snd (load_data net_flaky URL fresh)))) = [URL]"
    using load_data_cache_hit [of net_flaky URL "[]" net_flaky fresh] calculation by simp
  ultimately show ?thesis
    using load_data_cache_hit [of net_flaky URL "[URL]" net_flaky fresh] by simp
qed

subsection \<open>Counting the values of a column\<close>

lemma bump_absent: "x \<notin> set (map fst kns) \<Longrightarrow> bump x kns = kns @ [(x, 1)]"
  by (induction kns) auto

lemma bump_present:
  "x \<in> set (map fst kns) \<Longrightarrow> distinct (map fst kns) \<Longrightarrow>
   bump x kns = map (\<lambda>(k, n). (k, if k = x then Suc n else n)) kns"
proof (induction kns)
  case Nil
  then show ?case by simp
next
  case (Cons kn kns)
  obtain k n where kn: "kn = (k, n)" by (cases kn)
  show ?case
  proof (cases "k = x")
    case True
    with Cons.prems kn have "x \<notin> set (map fst kns)" by simp
    then have "map (\<lambda>(k, n). (k, if k = x then Suc n else n)) kns = kns"
      by (induction kns) auto
    with True kn show ?thesis by simp
  next
    case False
    with Cons kn show ?thesis by simp
  qed
qed

lemma filter_removeAll: "filter P (removeAll x ys) = filter (\<lambda>k. k \<noteq> x \<and> P k) ys"
  by (induction ys) auto

lemma foldl_bump:
  "distinct (map fst acc) \<Longrightarrow>
   foldl (\<lambda>acc x. bump x acc) acc xs =
     map (\<lambda>(k, n). (k, n + count_list xs k)) acc @
     map (\<lambda>k. (k, count_list xs k)) (filter (\<lambda>k. k \<notin> set (map fst acc)) (first_appearance xs))"
proof (induction xs arbitrary: acc)
  case Nil
  then show ?case by simp
next
  case (Cons x xs)
  show ?case
  proof (cases "x \<in> set (map fst acc)")
    case True
    let ?acc = "map (\<lambda>(k, n). (k, if k = x then Suc n else n)) acc"
    have b: "bump x acc = ?acc" using True Cons.prems by (rule bump_present)
    have keys: "map fst ?acc = map fst acc" by (induction acc) auto
    have d: "distinct (map fst ?acc)" using Cons.prems by (simp only: keys)
    have 1: "map (\<lambda>(k, n). (k, n + count_list xs k)) ?acc =
             map (\<lambda>(k, n). (k, n + count_list (x # xs) k)) acc"
      by (induction acc) auto
    have 2: "filter (\<lambda>k. k \<notin> set (map fst acc)) (first_appearance (x # xs)) =
             filter (\<lambda>k. k \<notin> set (map fst acc)) (first_appearance xs)"
      using True by (auto simp: filter_removeAll intro: filter_cong)
    have 3: "map (\<lambda>k. (k, count_list (x # xs) k)) (filter (\<lambda>k. k \<notin> set (map fst acc)) (first_appearance xs)) =
             map (\<lambda>k. (k, count_list xs k)) (filter (\<lambda>k. k \<notin> set (map fst acc)) (first_appearance xs))"
      using True by (auto intro: map_cong)
    show ?thesis
      using Cons.IH [OF d] b keys 1 2 3 by simp
  next
    case False
    have b: "bump x acc = acc @ [(x, 1)]" using False by (rule bump_absent)
    have d: "distinct (map fst (acc @ [(x, 1)]))" using Cons.prems False by simp
    have 1: "map (\<lambda>(k, n). (k, n + count_list xs k)) acc =
             map (\<lambda>(k, n). (k, n + count_list (x # xs) k)) acc"
      using False by (induction acc) auto
    have 2: "filter (\<lambda>k. k \<notin> set (map fst acc)) (removeAll x (first_appearance xs)) =
             filter (\<lambda>k. k \<notin> set (map fst (acc @ [(x, 1)]))) (first_appearance xs)"
      by (auto simp: filter_removeAll intro: filter_cong)
    have 3: "map (\<lambda>k. (k, count_list (x # xs) k)) (filter (\<lambda>k. k \<notin> set (map fst (acc @ [(x, 1)]))) (first_appearance xs)) =
             map (\<lambda>k. (k, count_list xs k)) (filter (\<lambda>k. k \<notin> set (map fst (acc @ [(x, 1)]))) (first_appearance xs))"
      by (auto intro: map_cong)
    show ?thesis
      using Cons.IH [OF d] b False 1 2 3 by simp
  qed
qed

lemma tally_eq:
  "tally col = map (\<lambda>k. (k, count_list (filter (\<lambda>x. x \<noteq> NaN) col) k))
                 (first_appearance (filter (\<lambda>x. x \<noteq> NaN) col))"
  unfolding tally_def by (simp add: foldl_bump)

lemma set_first_appearance: "set (first_appearance xs) = set xs"
  by (induction xs) auto

lemma distinct_first_appearance: "distinct (first_appearance xs)"
  by (induction xs) (auto simp: distinct_removeAll)

lemma sum_count_list:
  assumes "distinct ks" and "set ks = set xs"
  shows "sum_list (map (count_list xs) ks) = length xs"
proof -
  have "sum_list (map (count_list xs) ks) = sum (count_list xs) (set ks)"
    using assms(1) by (rule sum_list_distinct_conv_sum_set)
  also have "\<dots> = sum (count_list xs) (set xs)"
    by (simp only: assms(2))
  also have "\<dots> = length xs"
    by (rule sum_count_set) simp_all
  finally show ?thesis .
qed

lemma sum_tally: "sum_list (map snd (tally col)) = length (filter (\<lambda>x. x \<noteq> NaN) col)"
proof -
  let ?vals = "filter (\<lambda>x. x \<noteq> NaN) col"
  have "map snd (tally col) = map (count_list ?vals) (first_appearance ?vals)"
    unfolding tally_eq by (induction "first_appearance ?vals") simp_all
  moreover have "sum_list (map (count_list ?vals) (first_appearance ?vals)) = length ?vals"
    by (rule sum_count_list) (rule distinct_first_appearance, rule set_first_appearance)
  ultimately show ?thesis by (simp only:)
qed

lemma length_tally: "length (tally col) = card (set (filter (\<lambda>x. x \<noteq> NaN) col))"
proof -
  let ?vals = "filter (\<lambda>x. x \<noteq> NaN) col"
  have "length (tally col) = length (first_appearance ?vals)"
    unfolding tally_eq by (rule length_map)
  also have "\<dots> = card (set (first_appearance ?vals))"
    by (rule distinct_card [symmetric]) (rule distinct_first_appearance)
  also have "\<dots> = card (set ?vals)"
    by (simp only: set_first_appearance)
  finally show ?thesis .
qed

lemma tally_positive:
  assumes "kn \<in> set (tally col)"
  shows "0 < snd kn"
proof -
  let ?vals = "filter (\<lambda>x. x \<noteq> NaN) col"
  from assms obtain k where k: "k \<in> set (first_appearance ?vals)"
    and kn: "kn = (k, count_list ?vals k)"
    unfolding tally_eq by (auto simp only: set_map image_iff)
  from k have "k \<in> set ?vals" by (simp only: set_first_appearance)
  then have "count_list ?vals k \<noteq> 0" by (simp only: count_list_0_iff not_False_eq_True not_not)
  with kn show ?thesis by simp
qed

lemma sum_list_insort_key:
  "sum_list (map g (insort_key f x xs)) = g x + sum_list (map g xs)"
  for g :: "'a \<Rightarrow> nat"
  by (induction xs) auto

lemma sum_list_sort_key: "sum_list (map g (sort_key f xs)) = sum_list (map g xs)"
  for g :: "'a \<Rightarrow> nat"
  by (induction xs) (auto simp: sum_list_insort_key)

lemma sum_value_counts:
  "sum_list (map snd (value_counts col)) = length (filter (\<lambda>x. x \<noteq> NaN) col)"
  by (simp add: value_counts_def sum_list_sort_key sum_tally)

lemma length_value_counts: "length (value_counts col) = card (set (filter (\<lambda>x. x \<noteq> NaN) col))"
  by (simp add: value_counts_def length_tally)

lemma value_counts_positive: "kn \<in> set (value_counts col) \<Longrightarrow> 0 < snd kn"
  by (simp add: value_counts_def tally_positive)

lemma sorted_value_counts: "sorted_wrt (\<lambda>a b. snd b \<le> snd a) (value_counts col)"
proof -
  have "sorted (map (\<lambda>(k, n). - int n) (value_counts col))"
    unfolding value_counts_def by (rule sorted_sort_key)
  then show ?thesis
    by (simp add: sorted_wrt_map case_prod_unfold)
qed

lemma value_counts_stable:
  "filter (\<lambda>kn. snd kn = c) (value_counts col) =
   map (\<lambda>k. (k, c)) (filter (\<lambda>k. count_list (filter (\<lambda>x. x \<noteq> NaN) col) k = c)
                        (first_appearance (filter (\<lambda>x. x \<noteq> NaN) col)))"
proof -
  have "filter (\<lambda>kn. (\<lambda>(k, n). - int n) kn = - int c) (value_counts col) =
        filter (\<lambda>kn. (\<lambda>(k, n). - int n) kn = - int c) (tally col)"
    unfolding value_counts_def by (rule sort_key_stable)
  moreover have "(\<lambda>kn. (\<lambda>(k, n). - int n) kn = - int c) = (\<lambda>kn::cell \<times> nat. snd kn = c)"
    by (auto simp: fun_eq_iff)
  ultimately have "filter (\<lambda>kn. snd kn = c) (value_counts col) = filter (\<lambda>kn. snd kn = c) (tally col)"
    by simp
  also have "\<dots> = map (\<lambda>k. (k, c)) (filter (\<lambda>k. count_list (filter (\<lambda>x. x \<noteq> NaN) col) k = c)
                        (first_appearance (filter (\<lambda>x. x \<noteq> NaN) col)))"
    by (simp add: tally_eq filter_map comp_def cong: map_cong)
  finally show ?thesis .
qed

lemma sum_take_le: "sum_list (map g (take n xs)) \<le> sum_list (map g xs)"
  for g :: "'a \<Rightarrow> nat"
proof -
  have "sum_list (map g xs) = sum_list (map g (take n xs)) + sum_list (map g (drop n xs))"
    by (metis append_take_drop_id map_append sum_list_append)
  then show ?thesis by simp
qed

lemma sum_take_less:
  fixes g :: "'a \<Rightarrow> nat"
  assumes "n < length xs" and "\<And>x. x \<in> set xs \<Longrightarrow> 0 < g x"
  shows "sum_list (map g (take n xs)) < sum_list (map g xs)"
proof -
  have s: "sum_list (map g xs) = sum_list (map g (take n xs)) + sum_list (map g (drop n xs))"
    by (metis append_take_drop_id map_append sum_list_append)
  from assms(1) obtain y ys where d: "drop n xs = y # ys"
    by (cases "drop n xs") auto
  then have "y \<in> set xs" by (metis in_set_dropD list.set_intros(1))
  with assms(2) have "0 < g y" by simp
  with s d show ?thesis by simp
qed

lemma filter_take_prefix: "prefix (filter P (take n xs)) (filter P xs)"
proof -
  have "filter P xs = filter P (take n xs) @ filter P (drop n xs)"
    by (metis append_take_drop_id filter_append)
  then show ?thesis by (simp add: prefix_def)
qed

subsection \<open>The count aggregators\<close>

lemma value_counts_mem:
  "kn \<in> set (value_counts col) \<longleftrightarrow>
   fst kn \<in> set (filter (\<lambda>x. x \<noteq> NaN) col) \<and> snd kn = count_list (filter (\<lambda>x. x \<noteq> NaN) col) (fst kn)"
  unfolding value_counts_def set_sort tally_eq
  by (cases kn) (auto simp: set_first_appearance)

text \<open>
  The claim that the counts of the best-aspect aggregator always sum to the number of
  values present fails on a column of six different answers: five rows of count 1 are
  emitted for six values.
\<close>

theorem best_aspect_counts_lose_values:
  "getitem six_aspects aspect_column =
     Inr [Str ''a'', Str ''b'', Str ''c'', Str ''d'', Str ''e'', Str ''f''] \<and>
   best_aspect_counts six_aspects =
     Inr [(Str ''a'', 1), (Str ''b'', 1), (Str ''c'', 1), (Str ''d'', 1), (Str ''e'', 1)] \<and>
   sum_list (map snd [(Str ''a'', 1::nat), (Str ''b'', 1), (Str ''c'', 1), (Str ''d'', 1), (Str ''e'', 1)]) \<noteq>
     length (filter (\<lambda>x. x \<noteq> NaN) [Str ''a'', Str ''b'', Str ''c'', Str ''d'', Str ''e'', Str ''f''])"
  by (simp add: six_aspects_def aspect_column_def getitem_def best_aspect_counts_def head_def
      value_counts_def tally_def)

text \<open>
  Claim C6, as the code has it. The gender count aggregator emits counts that sum to
  the number of values of the column that are not missing, and on the column F, F, M
  it gives F with 2 and then M with 1. The best-aspect aggregator keeps the first five
  rows only: its counts sum to at most the number of values that are not missing, and
  to exactly that number if and only if the column has at most five distinct values.
\<close>

theorem count_aggregators_sum:
  "(getitem data ''Gender'' = Inr gender \<longrightarrow>
      (\<exists>out. gender_counts data = Inr out \<and>
         sum_list (map snd out) = length (filter (\<lambda>x. x \<noteq> NaN) gender))) \<and>
   (getitem data aspect_column = Inr aspects \<longrightarrow>
      (\<exists>out. best_aspect_counts data = Inr out \<and>
         sum_list (map snd out) \<le> length (filter (\<lambda>x. x \<noteq> NaN) aspects) \<and>
         (sum_list (map snd out) = length (filter (\<lambda>x. x \<noteq> NaN) aspects) \<longleftrightarrow>
          card (set (filter (\<lambda>x. x \<noteq> NaN) aspects)) \<le> 5))) \<and>
   gender_counts [(''Gender'', [Str ''F'', Str ''F'', Str ''M''])] = Inr [(Str ''F'', 2), (Str ''M'', 1)]"
proof -
  have 1: "getitem data ''Gender'' = Inr gender \<longrightarrow>
      (\<exists>out. gender_counts data = Inr out \<and>
         sum_list (map snd out) = length (filter (\<lambda>x. x \<noteq> NaN) gender))"
    by (simp add: gender_counts_def sum_value_counts)
  have 2: "getitem data aspect_column = Inr aspects \<longrightarrow>
      (\<exists>out. best_aspect_counts data = Inr out \<and>
         sum_list (map snd out) \<le> length (filter (\<lambda>x. x \<noteq> NaN) aspects) \<and>
         (sum_list (map snd out) = length (filter (\<lambda>x. x \<noteq> NaN) aspects) \<longleftrightarrow>
          card (set (filter (\<lambda>x. x \<noteq> NaN) aspects)) \<le> 5))"
  proof
    assume g: "getitem data aspect_column = Inr aspects"
    let ?vc = "value_counts aspects"
    let ?n = "length (filter (\<lambda>x. x \<noteq> NaN) aspects)"
    have le: "sum_list (map snd (take 5 ?vc)) \<le> ?n"
      using sum_take_le [of snd 5 ?vc] by (simp only: sum_value_counts)
    have iff: "sum_list (map snd (take 5 ?vc)) = ?n \<longleftrightarrow> length ?vc \<le> 5"
    proof (cases "length ?vc \<le> 5")
      case True
      then show ?thesis by (simp add: sum_value_counts)
    next
      case False
      then have "5 < length ?vc" by simp
      then have "sum_list (map snd (take 5 ?vc)) < sum_list (map snd ?vc)"
        by (rule sum_take_less) (rule value_counts_positive)
      with False show ?thesis by (simp add: sum_value_counts)
    qed
    show "\<exists>out. best_aspect_counts data = Inr out \<and>
         sum_list (map snd out) \<le> ?n \<and>
         (sum_list (map snd out) = ?n \<longleftrightarrow> card (set (filter (\<lambda>x. x \<noteq> NaN) aspects)) \<le> 5)"
      using g le iff by (simp add: best_aspect_counts_def head_def length_value_counts)
  qed
  have 3: "gender_counts [(''Gender'', [Str ''F'', Str ''F'', Str ''M''])] = Inr [(Str ''F'', 2), (Str ''M'', 1)]"
    by (simp add: gender_counts_def getitem_def value_counts_def tally_def)
  from 1 2 3 show ?thesis by blast
qed

theorem count_aggregators_sum_witness:
  "gender_counts tied_aspects = Inr [(Str ''F'', 3), (Str ''M'', 1)] \<and>
   best_aspect_counts tied_aspects = Inr [(Str ''b'', 2), (Str ''a'', 2), (Str ''c'', 1)] \<and>
   sum_list (map snd [(Str ''b'', 2::nat), (Str ''a'', 2), (Str ''c'', 1)]) = 5"
proof -
  have g: "getitem tied_aspects ''Gender'' = Inr [Str ''F'', NaN, Str ''M'', Str ''F'', Str ''F'']"
    and a: "getitem tied_aspects aspect_column = Inr [Str ''b'', Str ''a'', Str ''a'', Str ''b'', Str ''c'']"
    by (simp_all add: tied_aspects_def getitem_def aspect_column_def)
  have "gender_counts tied_aspects = Inr [(Str ''F'', 3), (Str ''M'', 1)]"
    by (simp add: gender_counts_def g value_counts_def tally_def)
  moreover have "best_aspect_counts tied_aspects = Inr [(Str ''b'', 2), (Str ''a'', 2), (Str ''c'', 1)]"
    by (simp add: best_aspect_counts_def a value_counts_def tally_def head_def)
  ultimately show ?thesis
    using count_aggregators_sum [of tied_aspects "[Str ''F'', NaN, Str ''M'', Str ''F'', Str ''F'']"
        "[Str ''b'', Str ''a'', Str ''a'', Str ''b'', Str ''c'']"] g a
    by simp
qed

text \<open>
  Claim C7. The best-aspect aggregator emits at most five rows, sorted by descending
  count; every row is a value of the column with the number of its occurrences; every
  value left out occurs at most as often as each value kept; and the rows with the same
  count stand in the order in which their values first appear in the column.
\<close>

theorem top_aspects_sorted_truncated_stable:
  assumes "getitem data aspect_column = Inr aspects"
  shows "\<exists>out. best_aspect_counts data = Inr out \<and>
           sorted_wrt (\<lambda>a b. snd b \<le> snd a) out \<and>
           length out \<le> 5 \<and>
           (\<forall>kn \<in> set out. fst kn \<in> set aspects \<and> fst kn \<noteq> NaN \<and>
              snd kn = count_list (filter (\<lambda>x. x \<noteq> NaN) aspects) (fst kn)) \<and>
           (\<forall>v \<in> set aspects. v \<noteq> NaN \<and> v \<notin> fst ` set out \<longrightarrow>
              (\<forall>kn \<in> set out. count_list (filter (\<lambda>x. x \<noteq> NaN) aspects) v \<le> snd kn)) \<and>
           (\<forall>c. prefix (filter (\<lambda>kn. snd kn = c) out)
                  (map (\<lambda>k. (k, c))
                     (filter (\<lambda>k. count_list (filter (\<lambda>x. x \<noteq> NaN) aspects) k = c)
                        (first_appearance (filter (\<lambda>x. x \<noteq> NaN) aspects)))))"
proof -
  let ?vals = "filter (\<lambda>x. x \<noteq> NaN) aspects"
  let ?vc = "value_counts aspects"
  let ?out = "take 5 ?vc"
  have out: "best_aspect_counts data = Inr ?out"
    using assms by (simp add: best_aspect_counts_def head_def)
  have split: "?vc = ?out @ drop 5 ?vc" by simp
  have "sorted_wrt (\<lambda>a b. snd b \<le> snd a) (?out @ drop 5 ?vc)"
    using sorted_value_counts [of aspects] by simp
  then have s1: "sorted_wrt (\<lambda>a b. snd b \<le> snd a) ?out"
    and s2: "\<forall>x \<in> set ?out. \<forall>y \<in> set (drop 5 ?vc). snd y \<le> snd x"
    unfolding sorted_wrt_append by blast+
  have len: "length ?out \<le> 5" by simp
  have mem: "\<forall>kn \<in> set ?out. fst kn \<in> set aspects \<and> fst kn \<noteq> NaN \<and>
      snd kn = count_list ?vals (fst kn)"
  proof
    fix kn assume "kn \<in> set ?out"
    then have "kn \<in> set ?vc" by (rule in_set_takeD)
    then show "fst kn \<in> set aspects \<and> fst kn \<noteq> NaN \<and> snd kn = count_list ?vals (fst kn)"
      by (simp add: value_counts_mem)
  qed
  have top: "\<forall>v \<in> set aspects. v \<noteq> NaN \<and> v \<notin> fst ` set ?out \<longrightarrow>
      (\<forall>kn \<in> set ?out. count_list ?vals v \<le> snd kn)"
  proof (intro ballI impI)
    fix v kn
    assume v: "v \<in> set aspects" and h: "v \<noteq> NaN \<and> v \<notin> fst ` set ?out" and kn: "kn \<in> set ?out"
    from v h have "(v, count_list ?vals v) \<in> set ?vc" by (simp add: value_counts_mem)
    then have "(v, count_list ?vals v) \<in> set ?out \<union> set (drop 5 ?vc)"
      by (metis split set_append)
    moreover have "(v, count_list ?vals v) \<notin> set ?out"
      using h by (metis fst_conv image_eqI)
    ultimately have "(v, count_list ?vals v) \<in> set (drop 5 ?vc)" by blast
    with s2 kn show "count_list ?vals v \<le> snd kn" by fastforce
  qed
  have stable: "\<forall>c. prefix (filter (\<lambda>kn. snd kn = c) ?out)
      (map (\<lambda>k. (k, c)) (filter (\<lambda>k. count_list ?vals k = c) (first_appearance ?vals)))"
    using filter_take_prefix [of "\<lambda>kn. snd kn = _" 5 ?vc]
    by (simp only: value_counts_stable) blast
  from out s1 len mem top stable show ?thesis by blast
qed

theorem top_aspects_sorted_truncated_stable_witness:
  "best_aspect_counts tied_aspects = Inr [(Str ''b'', 2), (Str ''a'', 2), (Str ''c'', 1)] \<and>
   first_appearance [Str ''b'', Str ''a'', Str ''a'', Str ''b'', Str ''c''] = [Str ''b'', Str ''a'', Str ''c'']"
proof -
  have a: "getitem tied_aspects aspect_column = Inr [Str ''b'', Str ''a'', Str ''a'', Str ''b'', Str ''c'']"
    by (simp add: tied_aspects_def getitem_def aspect_column_def)
  have "best_aspect_counts tied_aspects = Inr [(Str ''b'', 2), (Str ''a'', 2), (Str ''c'', 1)]"
    by (simp add: best_aspect_counts_def a value_counts_def tally_def head_def)
  with top_aspects_sorted_truncated_stable [OF a] show ?thesis by simp
qed

subsection \<open>The proportion aggregator\<close>

lemma proportion_yes_bounds: "0 \<le> proportion_yes by answers g \<and> proportion_yes by answers g \<le> 1"
proof -
  have "length (filter (\<lambda>(k, a). k = g \<and> a = Str ''Yes'') rows) \<le>
        length (filter (\<lambda>(k, a). k = g) rows)" for rows :: "(cell \<times> cell) list"
    by (induction rows) auto
  then show ?thesis
    unfolding proportion_yes_def by (simp add: divide_le_eq_1 zero_le_divide_iff)
qed

lemma group_rows_nonempty:
  assumes "length answers = length by" and "g \<in> set by"
  shows "0 < length (filter (\<lambda>(k, a). k = g) (zip by answers))"
proof -
  from assms(2) obtain i where i: "i < length by" "by ! i = g"
    by (auto simp: in_set_conv_nth)
  with assms(1) have "(g, answers ! i) \<in> set (zip by answers)"
    by (auto simp: in_set_zip intro!: exI [of _ i])
  then have "(g, answers ! i) \<in> set (filter (\<lambda>(k, a). k = g) (zip by answers))" by simp
  then have "filter (\<lambda>(k, a). k = g) (zip by answers) \<noteq> []"
    by (metis empty_iff empty_set)
  then show ?thesis by simp
qed

lemma group_keys_set: "set (group_keys by) = set by - {NaN}"
  by (auto simp: group_keys_def)

lemma group_keys_distinct: "distinct (group_keys by)"
  by (simp add: group_keys_def)

lemma group_keys_sorted: "sorted (map cell_key (group_keys by))"
  by (simp add: group_keys_def)

text \<open>
  Claim C8. On a table with the Gender column and the two improvement questions, the
  proportion aggregator emits, for the first question and then for the second, one row
  for each value of Gender that is not missing, once each: the number of \<^verbatim>\<open>'Yes'\<close>
  answers among the rows of that group divided by the number of rows of the group,
  which is not zero. Every proportion lies between 0 and 1.
\<close>

theorem improvement_proportions_in_unit_interval:
  assumes "getitem data ''Gender'' = Inr gender"
    and "getitem data q_edu = Inr edu" and "getitem data q_img = Inr img"
    and "length edu = length gender" and "length img = length gender"
  shows "\<exists>out. improvement_melted data = Inr out \<and>
           out = map (\<lambda>g. (g, ''Quality of Education Improved'', proportion_yes gender edu g))
                   (group_keys gender) @
                 map (\<lambda>g. (g, ''University Image Improved'', proportion_yes gender img g))
                   (group_keys gender) \<and>
           set (group_keys gender) = set gender - {NaN} \<and>
           distinct (group_keys gender) \<and>
           (\<forall>g \<in> set (group_keys gender).
              0 < length (filter (\<lambda>(k, a). k = g) (zip gender edu)) \<and>
              0 < length (filter (\<lambda>(k, a). k = g) (zip gender img))) \<and>
           (\<forall>(g, q, p) \<in> set out. 0 \<le> p \<and> p \<le> 1)"
proof -
  let ?out = "map (\<lambda>g. (g, ''Quality of Education Improved'', proportion_yes gender edu g))
                   (group_keys gender) @
                 map (\<lambda>g. (g, ''University Image Improved'', proportion_yes gender img g))
                   (group_keys gender)"
  have r: "rename_question q_edu = ''Quality of Education Improved''"
    "rename_question q_img = ''University Image Improved''"
    by (simp_all add: rename_question_def q_edu_def q_img_def)
  have out: "improvement_melted data = Inr ?out"
    using assms(1-3) by (simp add: improvement_melted_def Let_def comp_def r)
  have pos: "\<forall>g \<in> set (group_keys gender).
              0 < length (filter (\<lambda>(k, a). k = g) (zip gender edu)) \<and>
              0 < length (filter (\<lambda>(k, a). k = g) (zip gender img))"
  proof
    fix g assume "g \<in> set (group_keys gender)"
    then have g: "g \<in> set gender" by (simp add: group_keys_set)
    show "0 < length (filter (\<lambda>(k, a). k = g) (zip gender edu)) \<and>
          0 < length (filter (\<lambda>(k, a). k = g) (zip gender img))"
      using group_rows_nonempty [OF assms(4) g] group_rows_nonempty [OF assms(5) g] by (rule conjI)
  qed
  have bounds: "\<forall>(g, q, p) \<in> set ?out. 0 \<le> p \<and> p \<le> 1"
    using proportion_yes_bounds by auto
  from out pos bounds group_keys_set [of gender] group_keys_distinct [of gender]
  show ?thesis by blast
qed

theorem improvement_proportions_in_unit_interval_witness:
  "improvement_melted improvement_sample =
     Inr [(Str ''F'', ''Quality of Education Improved'', 1 / 2),
          (Str ''M'', ''Quality of Education Improved'', 1),
          (Str ''F'', ''University Image Improved'', 1 / 2),
          (Str ''M'', ''University Image Improved'', 0)]"
proof -
  have g: "getitem improvement_sample ''Gender'' = Inr [Str ''M'', Str ''F'', NaN, Str ''F'']"
    and e: "getitem improvement_sample q_edu = Inr [Str ''Yes'', Str ''No'', Str ''Yes'', Str ''Yes'']"
    and i: "getitem improvement_sample q_img = Inr [Str ''No'', NaN, Str ''Yes'', Str ''Yes'']"
    by (simp_all add: improvement_sample_def getitem_def q_edu_def q_img_def)
  have k: "group_keys [Str ''M'', Str ''F'', NaN, Str ''F''] = [Str ''F'', Str ''M'']"
    by (simp add: group_keys_def less_eq_char_def less_char_def)
  from improvement_proportions_in_unit_interval [OF g e i]
  show ?thesis by (auto simp: k proportion_yes_def)
qed

subsection \<open>The GPA aggregator\<close>

lemma to_numeric_idem: "to_numeric p (to_numeric p x) = to_numeric p x"
  by (cases x) (auto split: option.splits)

lemma to_numeric_not_Str: "\<not> is_Str (to_numeric p x)"
  by (cases x) (auto split: option.splits)

lemma nanmean_NaN_iff: "nanmean cs = NaN \<longleftrightarrow> (\<forall>x \<in> set cs. \<forall>q. x \<noteq> Num q)"
proof -
  have "nums cs = [] \<longleftrightarrow> (\<forall>x \<in> set cs. \<forall>q. x \<noteq> Num q)"
    by (induction cs rule: nums.induct) auto
  then show ?thesis by (simp add: nanmean_def Let_def)
qed

lemma coerce_cols_present:
  "list_all (\<lambda>c. map_of data c \<noteq> None) cols \<Longrightarrow>
   \<exists>data'. coerce_cols p cols data = Inr data' \<and>
     (\<forall>c. map_of data' c =
        (if c \<in> set cols then map_option (map (to_numeric p)) (map_of data c) else map_of data c))"
proof (induction cols arbitrary: data)
  case Nil
  then show ?case by simp
next
  case (Cons col cols)
  from Cons.prems obtain c where c: "map_of data col = Some c" by auto
  let ?d = "setitem data col (map (to_numeric p) c)"
  have m: "map_of ?d = (map_of data)(col \<mapsto> map (to_numeric p) c)"
    by (simp add: setitem_def update_conv')
  have "list_all (\<lambda>c. map_of ?d c \<noteq> None) cols"
    using Cons.prems by (simp add: m list_all_iff)
  from Cons.IH [OF this] obtain data' where
    r: "coerce_cols p cols ?d = Inr data'"
    and l: "\<forall>c'. map_of data' c' =
        (if c' \<in> set cols then map_option (map (to_numeric p)) (map_of ?d c') else map_of ?d c')"
    by blast
  have "coerce_cols p (col # cols) data = Inr data'"
    using c r by (simp add: getitem_def)
  moreover have "\<forall>c'. map_of data' c' =
        (if c' \<in> set (col # cols) then map_option (map (to_numeric p)) (map_of data c')
         else map_of data c')"
    using l c by (auto simp: m to_numeric_idem)
  ultimately show ?case by blast
qed

lemma getitems_present:
  "(\<forall>c \<in> set cols. map_of d c = Some (f c)) \<Longrightarrow> getitems d cols = Inr (map f cols)"
  by (induction cols) (simp_all add: getitem_def)

lemma means_numeric:
  "(\<forall>c \<in> set cs. \<not> list_ex is_Str c) \<Longrightarrow> means cs = Inr (map nanmean cs)"
  by (induction cs) (simp_all add: mean_def)

lemma relabel_gpa_cols: "map relabel gpa_cols = semester_order"
  by (simp add: gpa_cols_def semester_order_def relabel_def)

lemma categorical_gpa:
  "map (\<lambda>c. (categorical semester_order (relabel c), g c)) gpa_cols =
   map (\<lambda>(col, tag). (Some tag, g col)) (zip gpa_cols semester_order)"
  by (simp add: gpa_cols_def semester_order_def relabel_def categorical_def)

lemma canonical_codes:
  "sorted_wrt (\<lambda>a b. index_of semester_order (snd a) < index_of semester_order (snd b))
     (zip gpa_cols semester_order)"
  by (simp add: gpa_cols_def semester_order_def)

lemma clean_gpa_data_eq:
  assumes "list_all (\<lambda>c. map_of data c \<noteq> None) gpa_cols"
  shows "\<exists>data'. clean_gpa_data p data =
           Inr (map (\<lambda>(col, tag). (Some tag, semester_mean p data col))
                  (filter (\<lambda>(col, tag). semester_mean p data col \<noteq> NaN)
                     (zip gpa_cols semester_order)), data') \<and>
         (\<forall>c \<in> set gpa_cols. map_of data' c = map_option (map (to_numeric p)) (map_of data c))"
proof -
  from coerce_cols_present [OF assms, of p] obtain data' where
    r: "coerce_cols p gpa_cols data = Inr data'"
    and l: "\<forall>c. map_of data' c =
        (if c \<in> set gpa_cols then map_option (map (to_numeric p)) (map_of data c) else map_of data c)"
    by blast
  let ?col = "\<lambda>c. map (to_numeric p) (the (map_of data c))"
  have present: "\<forall>c \<in> set gpa_cols. map_of data' c = Some (?col c)"
    using assms l by (auto simp: list_all_iff)
  have gi: "getitems data' gpa_cols = Inr (map ?col gpa_cols)"
    using present by (rule getitems_present)
  have "\<forall>c \<in> set (map ?col gpa_cols). \<not> list_ex is_Str c"
    by (auto simp: list_ex_iff to_numeric_not_Str)
  then have ms: "means (map ?col gpa_cols) = Inr (map nanmean (map ?col gpa_cols))"
    by (rule means_numeric)
  have sm: "\<forall>c \<in> set gpa_cols. nanmean (?col c) = semester_mean p data c"
    using assms by (auto simp: list_all_iff semester_mean_def)
  have z: "zip gpa_cols (map nanmean (map ?col gpa_cols)) =
           map (\<lambda>c. (c, semester_mean p data c)) gpa_cols"
    using sm by (simp add: zip_map2 zip_same_conv_map cong: map_cong)
  let ?cat = "map (\<lambda>(col, tag). (Some tag, semester_mean p data col)) (zip gpa_cols semester_order)"
  have cat: "map (\<lambda>(s, m). (categorical semester_order s, m))
               (map (\<lambda>(s, m). (relabel s, m)) (map (\<lambda>c. (c, semester_mean p data c)) gpa_cols)) = ?cat"
    using categorical_gpa [of "semester_mean p data"] by (simp add: comp_def)
  have "sorted_wrt (\<lambda>a b. index_of semester_order (snd a) \<le> index_of semester_order (snd b))
          (zip gpa_cols semester_order)"
    by (rule sorted_wrt_mono_rel [OF _ canonical_codes]) simp
  then have "sorted (map (\<lambda>(s, m). category_code semester_order s) ?cat)"
    by (simp add: sorted_wrt_map case_prod_unfold)
  then have srt: "sort_key (\<lambda>(s, m). category_code semester_order s) ?cat = ?cat"
    by (rule sort_key_id_if_sorted)
  have f: "filter (\<lambda>(s, m). m \<noteq> NaN) ?cat =
           map (\<lambda>(col, tag). (Some tag, semester_mean p data col))
             (filter (\<lambda>(col, tag). semester_mean p data col \<noteq> NaN) (zip gpa_cols semester_order))"
    by (simp add: filter_map comp_def case_prod_unfold)
  have "clean_gpa_data p data =
           Inr (map (\<lambda>(col, tag). (Some tag, semester_mean p data col))
                  (filter (\<lambda>(col, tag). semester_mean p data col \<noteq> NaN)
                     (zip gpa_cols semester_order)), data')"
    unfolding clean_gpa_data_def by (simp only: r gi ms z cat srt f Let_def sum.case)
  with present l show ?thesis by auto
qed

lemma semester_mean_NaN_iff:
  assumes "map_of data col = Some c"
  shows "semester_mean p data col = NaN \<longleftrightarrow> (\<forall>x \<in> set c. to_numeric p x = NaN)"
proof -
  have "(\<forall>q. to_numeric p x \<noteq> Num q) \<longleftrightarrow> to_numeric p x = NaN" for x
    using to_numeric_not_Str [of p x] by (cases "to_numeric p x") auto
  then show ?thesis using assms by (simp add: semester_mean_def nanmean_NaN_iff)
qed

lemma zip_distinct_snd:
  assumes "distinct ys" and "(a, y) \<in> set (zip xs ys)" and "(b, y) \<in> set (zip xs ys)"
  shows "a = b"
proof -
  from assms(2) obtain i where i: "i < length xs" "i < length ys" "xs ! i = a" "ys ! i = y"
    by (auto simp: in_set_zip)
  from assms(3) obtain j where j: "j < length xs" "j < length ys" "xs ! j = b" "ys ! j = y"
    by (auto simp: in_set_zip)
  from i(4) j(4) have "ys ! i = ys ! j" by simp
  with assms(1) i(2) j(2) have "i = j" by (simp only: nth_eq_iff_index_eq)
  with i j show ?thesis by simp
qed

lemma distinct_semester_order: "distinct semester_order"
  by (simp add: semester_order_def)

text \<open>
  Claim C4. On a table that has the twelve semester columns, \<^verbatim>\<open>clean_gpa_data\<close>
  returns. It replaces each semester column by its coercion to numbers, where a text
  that spells no number becomes missing. Its output lists, in the canonical order of
  the semesters, the tag and the mean of every semester whose coerced column holds a
  number: the positions of the tags in the canonical order increase strictly along the
  output, a semester whose values are all missing after coercion has no row, and when
  every semester column holds only texts that spell no number the output is empty.
\<close>

theorem clean_gpa_data_sorted_no_missing:
  assumes "list_all (\<lambda>c. map_of data c \<noteq> None) gpa_cols"
  shows "\<exists>out data'. clean_gpa_data to_num data = Inr (out, data') \<and>
     (\<forall>c \<in> set gpa_cols. map_of data' c = map_option (map (to_numeric to_num)) (map_of data c)) \<and>
     out = map (\<lambda>(col, tag). (Some tag, semester_mean to_num data col))
             (filter (\<lambda>(col, tag). semester_mean to_num data col \<noteq> NaN)
                (zip gpa_cols semester_order)) \<and>
     sorted_wrt (<) (map (\<lambda>(s, m). category_code semester_order s) out) \<and>
     (\<forall>(col, tag) \<in> set (zip gpa_cols semester_order).
        (\<forall>x \<in> set (the (map_of data col)). to_numeric to_num x = NaN) \<longrightarrow>
        Some tag \<notin> fst ` set out) \<and>
     ((\<forall>col \<in> set gpa_cols. \<forall>x \<in> set (the (map_of data col)). \<exists>s. x = Str s \<and> to_num s = None) \<longrightarrow>
        out = [])"
proof -
  let ?zs = "zip gpa_cols semester_order"
  let ?P = "\<lambda>(col, tag). semester_mean to_num data col \<noteq> NaN"
  let ?out = "map (\<lambda>(col, tag). (Some tag, semester_mean to_num data col)) (filter ?P ?zs)"
  from clean_gpa_data_eq [OF assms, of to_num] obtain data' where
    r: "clean_gpa_data to_num data = Inr (?out, data')"
    and c: "\<forall>c \<in> set gpa_cols. map_of data' c = map_option (map (to_numeric to_num)) (map_of data c)"
    by blast
  have some: "\<exists>c. map_of data col = Some c" if "col \<in> set gpa_cols" for col
    using assms that by (auto simp: list_all_iff)
  have "sorted_wrt (\<lambda>a b. index_of semester_order (snd a) < index_of semester_order (snd b))
          (filter ?P ?zs)"
    using canonical_codes by (rule sorted_wrt_filter)
  then have s: "sorted_wrt (<) (map (\<lambda>(s, m). category_code semester_order s) ?out)"
    by (simp add: sorted_wrt_map case_prod_unfold)
  have m: "\<forall>(col, tag) \<in> set ?zs.
        (\<forall>x \<in> set (the (map_of data col)). to_numeric to_num x = NaN) \<longrightarrow>
        Some tag \<notin> fst ` set ?out"
  proof -
    have no_entry: "Some tag \<notin> fst ` set ?out"
      if z: "(col, tag) \<in> set ?zs"
        and missing: "\<forall>x \<in> set (the (map_of data col)). to_numeric to_num x = NaN"
      for col tag
    proof
      assume "Some tag \<in> fst ` set ?out"
      then obtain col' where z'': "(col', tag) \<in> set ?zs"
        and p: "semester_mean to_num data col' \<noteq> NaN"
        by auto
      have "col' = col"
        using distinct_semester_order z'' z by (rule zip_distinct_snd)
      moreover from z have "col \<in> set gpa_cols" by (rule set_zip_leftD)
      then obtain cs where cs: "map_of data col = Some cs" using some by blast
      with missing have "semester_mean to_num data col = NaN"
        by (simp add: semester_mean_NaN_iff)
      ultimately show False using p by simp
    qed
    show ?thesis
    proof (intro ballI)
      fix z assume zin: "z \<in> set ?zs"
      obtain col tag where zz: "z = (col, tag)" by (cases z)
      show "case z of (col, tag) \<Rightarrow>
              (\<forall>x \<in> set (the (map_of data col)). to_numeric to_num x = NaN) \<longrightarrow>
              Some tag \<notin> fst ` set ?out"
        unfolding zz prod.case
      proof
        assume missing: "\<forall>x \<in> set (the (map_of data col)). to_numeric to_num x = NaN"
        from zin zz have "(col, tag) \<in> set ?zs" by simp
        then show "Some tag \<notin> fst ` set ?out" using missing by (rule no_entry)
      qed
    qed
  qed
  have e: "(\<forall>col \<in> set gpa_cols. \<forall>x \<in> set (the (map_of data col)). \<exists>s. x = Str s \<and> to_num s = None) \<longrightarrow>
        ?out = []"
  proof
    assume nonnum: "\<forall>col \<in> set gpa_cols. \<forall>x \<in> set (the (map_of data col)). \<exists>s. x = Str s \<and> to_num s = None"
    have "semester_mean to_num data col = NaN" if "(col, tag) \<in> set ?zs" for col tag
    proof -
      from that have g: "col \<in> set gpa_cols" by (rule set_zip_leftD)
      then obtain cs where cs: "map_of data col = Some cs" using some by blast
      have "\<forall>x \<in> set cs. to_numeric to_num x = NaN"
      proof
        fix x assume "x \<in> set cs"
        with nonnum g cs obtain s where "x = Str s" "to_num s = None" by force
        then show "to_numeric to_num x = NaN" by simp
      qed
      with cs show ?thesis by (simp add: semester_mean_NaN_iff)
    qed
    then have "filter ?P ?zs = []" by (auto simp: filter_empty_conv)
    then show "?out = []" by simp
  qed
  show ?thesis
    by (rule exI [of _ "?out"], rule exI [of _ data'], intro conjI)
      (fact r, fact c, rule refl, fact s, fact m, fact e)
qed

lemma map_of_keyed: "map_of (map (\<lambda>k. (k, f k)) ks) k = (if k \<in> set ks then Some (f k) else None)"
  by (induction ks) auto

theorem clean_gpa_data_sorted_no_missing_witness:
  "(\<exists>data'. clean_gpa_data to_num_sample gpa_sample =
      Inr ([(Some ''1Y S1'', Num (13 / 4)), (Some ''2Y S2'', Num 2)], data')) \<and>
   (\<exists>data'. clean_gpa_data to_num_sample gpa_text = Inr ([], data'))"
proof -
  have p1: "list_all (\<lambda>c. map_of gpa_sample c \<noteq> None) gpa_cols"
    by (simp add: gpa_sample_def map_of_keyed list_all_iff)
  have p2: "list_all (\<lambda>c. map_of gpa_text c \<noteq> None) gpa_cols"
    by (simp add: gpa_text_def map_of_keyed list_all_iff)
  have m1: "map (semester_mean to_num_sample gpa_sample) gpa_cols =
      [Num (13 / 4), NaN, NaN, NaN, Num 2, NaN, NaN, NaN, NaN, NaN, NaN, NaN]"
    by (simp add: semester_mean_def gpa_sample_def map_of_keyed gpa_cols_def nanmean_def
        to_num_sample_def)
  have o1: "map (\<lambda>(col, tag). (Some tag, semester_mean to_num_sample gpa_sample col))
             (filter (\<lambda>(col, tag). semester_mean to_num_sample gpa_sample col \<noteq> NaN)
                (zip gpa_cols semester_order)) =
            [(Some ''1Y S1'', Num (13 / 4)), (Some ''2Y S2'', Num 2)]"
    using m1 by (simp add: gpa_cols_def semester_order_def)
  have t: "\<forall>col \<in> set gpa_cols. \<forall>x \<in> set (the (map_of gpa_text col)).
             \<exists>s. x = Str s \<and> to_num_sample s = None"
    by (auto simp: gpa_text_def map_of_keyed to_num_sample_def)
  have "\<exists>out data'. clean_gpa_data to_num_sample gpa_sample = Inr (out, data') \<and>
      out = map (\<lambda>(col, tag). (Some tag, semester_mean to_num_sample gpa_sample col))
             (filter (\<lambda>(col, tag). semester_mean to_num_sample gpa_sample col \<noteq> NaN)
                (zip gpa_cols semester_order))"
    using clean_gpa_data_sorted_no_missing [OF p1, of to_num_sample]
    by (elim exE conjE) (intro exI conjI, assumption+)
  then have 1: "\<exists>data'. clean_gpa_data to_num_sample gpa_sample =
      Inr ([(Some ''1Y S1'', Num (13 / 4)), (Some ''2Y S2'', Num 2)], data')"
    unfolding o1 by (elim exE conjE) (hypsubst, erule exI)
  have "\<exists>out data'. clean_gpa_data to_num_sample gpa_text = Inr (out, data') \<and>
      ((\<forall>col \<in> set gpa_cols. \<forall>x \<in> set (the (map_of gpa_text col)).
               \<exists>s. x = Str s \<and> to_num_sample s = None) \<longrightarrow> out = [])"
    using clean_gpa_data_sorted_no_missing [OF p2, of to_num_sample]
    by (elim exE conjE) (intro exI conjI, assumption+)
  then obtain out2 d2 where r2: "clean_gpa_data to_num_sample gpa_text = Inr (out2, d2)"
    and e2: "(\<forall>col \<in> set gpa_cols. \<forall>x \<in> set (the (map_of gpa_text col)).
               \<exists>s. x = Str s \<and> to_num_sample s = None) \<longrightarrow> out2 = []"
    by blast
  from e2 t have "out2 = []" by (rule mp)
  with r2 have "clean_gpa_data to_num_sample gpa_text = Inr ([], d2)" by simp
  then have 2: "\<exists>data'. clean_gpa_data to_num_sample gpa_text = Inr ([], data')" by (rule exI)
  from 1 2 show ?thesis ..
qed


subsection \<open>The expectation comparison\<close>

lemma enumerate_upt:
  "enumerate k (map g [0..<n]) = map (\<lambda>i. (k + i, g i)) [0..<n]"
proof (rule nth_equalityI)
  show "length (enumerate k (map g [0..<n])) = length (map (\<lambda>i. (k + i, g i)) [0..<n])"
    by simp
next
  fix i assume "i < length (enumerate k (map g [0..<n]))"
  then have "i < n" by simp
  then show "enumerate k (map g [0..<n]) ! i = map (\<lambda>i. (k + i, g i)) [0..<n] ! i"
    by (simp add: nth_enumerate_eq)
qed

lemma melt_two:
  "melt [(a, map f [0..<n]), (b, ys)] =
     map (\<lambda>i. (i, a, f i)) [0..<n] @ map (\<lambda>i. (n + i, b, ys ! i)) [0..<length ys]"
proof -
  have ys: "map (Pair b) ys = map (\<lambda>i. (b, ys ! i)) [0..<length ys]"
    by (rule nth_equalityI) simp_all
  have "melt [(a, map f [0..<n]), (b, ys)] =
        enumerate 0 (map (\<lambda>i. (a, f i)) [0..<n]) @
        enumerate n (map (\<lambda>i. (b, ys ! i)) [0..<length ys])"
    by (simp add: melt_def enumerate_append_eq comp_def ys)
  then show ?thesis by (simp only: enumerate_upt) simp
qed

lemma rename_metrics:
  "rename_metric ''Mean Expectation'' = ''Average Initial Expectation''"
  "rename_metric satisfaction_col = ''Expectation Met Score''"
  by (simp_all add: rename_metric_def satisfaction_col_def)

lemma getitem_setitem_other:
  "col' \<noteq> col \<Longrightarrow> getitem (setitem data col c) col' = getitem data col'"
  by (simp add: getitem_def setitem_def update_conv')

lemma satisfaction_col_neq: "satisfaction_col \<noteq> ''Mean Expectation''"
  by (simp add: satisfaction_col_def)

lemma expectation_plot_data_eq:
  assumes "getitems data expectation_cols = Inr cols"
    and "\<not> list_ex (list_ex is_Str) cols"
    and "getitem data satisfaction_col = Inr sat"
  shows "expectation_plot_data data =
    (Inr (map (\<lambda>i. (i, ''Average Initial Expectation'', nanmean (row_of cols i)))
            (filter (\<lambda>i. nanmean (row_of cols i) \<noteq> NaN) [0..<nrows data]) @
          map (\<lambda>i. (nrows data + i, ''Expectation Met Score'', sat ! i))
            (filter (\<lambda>i. sat ! i \<noteq> NaN) [0..<length sat])),
     setitem data ''Mean Expectation'' (map (\<lambda>i. nanmean (row_of cols i)) [0..<nrows data]))"
proof -
  let ?me = "map (\<lambda>i. nanmean (row_of cols i)) [0..<nrows data]"
  have m: "mean_axis1 (nrows data) cols = Inr ?me"
    using assms(2) by (simp add: mean_axis1_def)
  have s: "getitem (setitem data ''Mean Expectation'' ?me) satisfaction_col = Inr sat"
    using assms(3) satisfaction_col_neq by (simp add: getitem_setitem_other)
  have d: "map (\<lambda>(i, metric, score). (i, rename_metric metric, score))
            (dropna (melt [(''Mean Expectation'', ?me), (satisfaction_col, sat)])) =
          map (\<lambda>i. (i, ''Average Initial Expectation'', nanmean (row_of cols i)))
            (filter (\<lambda>i. nanmean (row_of cols i) \<noteq> NaN) [0..<nrows data]) @
          map (\<lambda>i. (nrows data + i, ''Expectation Met Score'', sat ! i))
            (filter (\<lambda>i. sat ! i \<noteq> NaN) [0..<length sat])"
    unfolding melt_two dropna_def
    by (simp add: filter_map comp_def rename_metrics)
  show ?thesis
    unfolding expectation_plot_data_def
    by (simp only: assms(1) m s d Let_def sum.case)
qed

text \<open>
  The comment at the call of \<^verbatim>\<open>dropna\<close> reads: drop any rows where either value is
  NaN. The call stands after \<^verbatim>\<open>melt\<close>, where each row of the long table holds one
  score, so it drops single entries and not rows of the survey: of a row without Q5
  the mean entry stays. The code misses here what its comment says.
\<close>

lemma expectation_row_without_q5_keeps_mean:
  "getitem expectation_sample satisfaction_col = Inr [Num 5, NaN] \<and>
   fst (expectation_plot_data expectation_sample) =
     Inr [(0, ''Average Initial Expectation'', Num 4),
          (1, ''Average Initial Expectation'', Num 3),
          (2, ''Expectation Met Score'', Num 5)]"
proof -
  have g: "getitems expectation_sample expectation_cols =
     Inr [[NaN, Num 3], [Num 4, Num 3], [Num 4, Num 3], [Num 4, Num 3]]"
    by (simp add: expectation_sample_def expectation_cols_def getitem_def)
  have s: "getitem expectation_sample satisfaction_col = Inr [Num 5, NaN]"
    by (simp add: expectation_sample_def satisfaction_col_def getitem_def)
  have n: "nrows expectation_sample = Suc (Suc 0)"
    by (simp add: expectation_sample_def nrows_def)
  have "fst (expectation_plot_data expectation_sample) =
     Inr [(0, ''Average Initial Expectation'', Num 4),
          (1, ''Average Initial Expectation'', Num 3),
          (2, ''Expectation Met Score'', Num 5)]"
    by (subst expectation_plot_data_eq [OF g _ s])
      (simp_all add: n row_of_def cell_at_def nanmean_def)
  with s show ?thesis by (intro conjI)
qed

lemma expectation_q1_sample_eval:
  "getitems expectation_q1_sample expectation_cols =
     Inr [[NaN, Num 3], [Num 4, Num 3], [Num 4, Num 3], [Num 4, Num 3]]"
  "getitem expectation_q1_sample satisfaction_col = Inr [Num 5, Num 2]"
  "nrows expectation_q1_sample = Suc (Suc 0)"
  by (simp_all add: expectation_q1_sample_def expectation_cols_def satisfaction_col_def
      getitem_def nrows_def)

lemma expectation_q1_sample_plot_data:
  "fst (expectation_plot_data expectation_q1_sample) =
     Inr [(0, ''Average Initial Expectation'', Num 4),
          (1, ''Average Initial Expectation'', Num 3),
          (2, ''Expectation Met Score'', Num 5),
          (3, ''Expectation Met Score'', Num 2)]"
  by (subst expectation_plot_data_eq [OF expectation_q1_sample_eval(1) _ expectation_q1_sample_eval(2)])
    (simp_all add: expectation_q1_sample_eval(3) row_of_def cell_at_def nanmean_def)

text \<open>
  The claim that a row with a missing value among Q1 to Q4 contributes no entry fails
  on a table whose first row lacks Q1 only: the row contributes the mean of its Q2 to
  Q4, entry 0, and its Q5, entry 2.
\<close>

theorem expectation_row_without_q1_kept:
  "getitems expectation_q1_sample expectation_cols =
     Inr [[NaN, Num 3], [Num 4, Num 3], [Num 4, Num 3], [Num 4, Num 3]] \<and>
   getitem expectation_q1_sample satisfaction_col = Inr [Num 5, Num 2] \<and>
   fst (expectation_plot_data expectation_q1_sample) =
     Inr [(0, ''Average Initial Expectation'', Num 4),
          (1, ''Average Initial Expectation'', Num 3),
          (2, ''Expectation Met Score'', Num 5),
          (3, ''Expectation Met Score'', Num 2)]"
  using expectation_q1_sample_eval(1,2) expectation_q1_sample_plot_data by (intro conjI)

text \<open>
  Claim C2, as far as the code has it by design. On a table whose four expectation
  columns hold no text, the expectation score of a row is the mean of those of Q1 to
  Q4 that are present, so a missing value among them does not remove the row. No entry
  of the long table has a missing score, and every entry is the mean of a row, numbered
  by the row, or the Q5 value of a row, numbered by the row plus the number of rows.
  A row with at least one of Q1 to Q4 present and with Q5 present contributes both its
  entries. A row with all of Q1 to Q4 missing contributes no expectation entry, and a
  row with Q5 missing contributes no satisfaction entry. What becomes of the other
  entry of a row that lacks only one of its two values is not stated here.
\<close>

theorem expectation_plot_data_by_row:
  assumes "getitems data expectation_cols = Inr cols"
    and "\<not> list_ex (list_ex is_Str) cols"
    and "getitem data satisfaction_col = Inr sat"
    and "length sat = nrows data"
  shows "\<exists>out. fst (expectation_plot_data data) = Inr out \<and>
    (\<forall>(i, m, s) \<in> set out. s \<noteq> NaN \<and>
       ((i < nrows data \<and> m = ''Average Initial Expectation'' \<and> s = nanmean (row_of cols i)) \<or>
        (nrows data \<le> i \<and> i < 2 * nrows data \<and> m = ''Expectation Met Score'' \<and>
         s = sat ! (i - nrows data)))) \<and>
    (\<forall>i < nrows data. (\<exists>c \<in> set cols. \<exists>q. cell_at c i = Num q) \<and> sat ! i \<noteq> NaN \<longrightarrow>
       (i, ''Average Initial Expectation'', nanmean (row_of cols i)) \<in> set out \<and>
       (nrows data + i, ''Expectation Met Score'', sat ! i) \<in> set out) \<and>
    (\<forall>i < nrows data. (\<forall>c \<in> set cols. cell_at c i = NaN) \<longrightarrow>
       (\<forall>m s. (i, m, s) \<notin> set out)) \<and>
    (\<forall>i < nrows data. sat ! i = NaN \<longrightarrow> (\<forall>m s. (nrows data + i, m, s) \<notin> set out))"
proof -
  let ?n = "nrows data"
  let ?a = "map (\<lambda>i. (i, ''Average Initial Expectation'', nanmean (row_of cols i)))
            (filter (\<lambda>i. nanmean (row_of cols i) \<noteq> NaN) [0..<?n])"
  let ?b = "map (\<lambda>i. (?n + i, ''Expectation Met Score'', sat ! i))
            (filter (\<lambda>i. sat ! i \<noteq> NaN) [0..<length sat])"
  let ?out = "?a @ ?b"
  have out: "fst (expectation_plot_data data) = Inr ?out"
    by (simp add: expectation_plot_data_eq [OF assms(1-3)])
  have defined: "nanmean (row_of cols i) \<noteq> NaN \<longleftrightarrow> (\<exists>c \<in> set cols. \<exists>q. cell_at c i = Num q)" for i
    by (auto simp: nanmean_NaN_iff row_of_def)
  have a: "(i, m, s) \<in> set ?a \<longleftrightarrow>
       (i < ?n \<and> m = ''Average Initial Expectation'' \<and>
        s = nanmean (row_of cols i) \<and> nanmean (row_of cols i) \<noteq> NaN)" for i m s
    by auto
  have b: "(i, m, s) \<in> set ?b \<longleftrightarrow>
       (?n \<le> i \<and> i < 2 * ?n \<and> m = ''Expectation Met Score'' \<and>
        s = sat ! (i - ?n) \<and> sat ! (i - ?n) \<noteq> NaN)" for i m s
  proof
    assume "(i, m, s) \<in> set ?b"
    then obtain j where "j < length sat" "sat ! j \<noteq> NaN" "i = ?n + j"
      "m = ''Expectation Met Score''" "s = sat ! j"
      by auto
    then show "?n \<le> i \<and> i < 2 * ?n \<and> m = ''Expectation Met Score'' \<and>
        s = sat ! (i - ?n) \<and> sat ! (i - ?n) \<noteq> NaN"
      using assms(4) by simp
  next
    assume h: "?n \<le> i \<and> i < 2 * ?n \<and> m = ''Expectation Met Score'' \<and>
        s = sat ! (i - ?n) \<and> sat ! (i - ?n) \<noteq> NaN"
    then have "i - ?n < length sat" "i = ?n + (i - ?n)" using assms(4) by arith+
    with h have "(i, m, s) = (\<lambda>j. (?n + j, ''Expectation Met Score'', sat ! j)) (i - ?n)"
      and "i - ?n \<in> set (filter (\<lambda>i. sat ! i \<noteq> NaN) [0..<length sat])"
      by simp_all
    then show "(i, m, s) \<in> set ?b" unfolding set_map by (rule image_eqI)
  qed
  have mem: "(i, m, s) \<in> set ?out \<longleftrightarrow>
       (i < ?n \<and> m = ''Average Initial Expectation'' \<and>
        s = nanmean (row_of cols i) \<and> nanmean (row_of cols i) \<noteq> NaN) \<or>
       (?n \<le> i \<and> i < 2 * ?n \<and> m = ''Expectation Met Score'' \<and>
        s = sat ! (i - ?n) \<and> sat ! (i - ?n) \<noteq> NaN)" for i m s
    unfolding set_append Un_iff a b by (rule refl)
  have 1: "\<forall>(i, m, s) \<in> set ?out. s \<noteq> NaN \<and>
       ((i < ?n \<and> m = ''Average Initial Expectation'' \<and> s = nanmean (row_of cols i)) \<or>
        (?n \<le> i \<and> i < 2 * ?n \<and> m = ''Expectation Met Score'' \<and> s = sat ! (i - ?n)))"
  proof (intro ballI)
    fix x assume x: "x \<in> set ?out"
    obtain i m s where xs: "x = (i, m, s)" by (cases x)
    from x have "(i, m, s) \<in> set ?out" unfolding xs .
    then have "(i < ?n \<and> m = ''Average Initial Expectation'' \<and>
        s = nanmean (row_of cols i) \<and> nanmean (row_of cols i) \<noteq> NaN) \<or>
       (?n \<le> i \<and> i < 2 * ?n \<and> m = ''Expectation Met Score'' \<and>
        s = sat ! (i - ?n) \<and> sat ! (i - ?n) \<noteq> NaN)"
      by (simp only: mem)
    then show "case x of (i, m, s) \<Rightarrow> s \<noteq> NaN \<and>
       ((i < ?n \<and> m = ''Average Initial Expectation'' \<and> s = nanmean (row_of cols i)) \<or>
        (?n \<le> i \<and> i < 2 * ?n \<and> m = ''Expectation Met Score'' \<and> s = sat ! (i - ?n)))"
      unfolding xs prod.case by (elim disjE conjE) simp_all
  qed
  have 2: "\<forall>i < ?n. (\<exists>c \<in> set cols. \<exists>q. cell_at c i = Num q) \<and> sat ! i \<noteq> NaN \<longrightarrow>
       (i, ''Average Initial Expectation'', nanmean (row_of cols i)) \<in> set ?out \<and>
       (?n + i, ''Expectation Met Score'', sat ! i) \<in> set ?out"
  proof (intro allI impI)
    fix i assume i: "i < ?n"
      and h: "(\<exists>c \<in> set cols. \<exists>q. cell_at c i = Num q) \<and> sat ! i \<noteq> NaN"
    from h have d: "nanmean (row_of cols i) \<noteq> NaN" by (simp only: defined)
    have "(i, ''Average Initial Expectation'', nanmean (row_of cols i)) \<in> set ?out"
      unfolding mem using i d by simp
    moreover have "(?n + i, ''Expectation Met Score'', sat ! i) \<in> set ?out"
      unfolding mem using i h by simp
    ultimately show "(i, ''Average Initial Expectation'', nanmean (row_of cols i)) \<in> set ?out \<and>
       (?n + i, ''Expectation Met Score'', sat ! i) \<in> set ?out" ..
  qed
  have 3: "\<forall>i < ?n. (\<forall>c \<in> set cols. cell_at c i = NaN) \<longrightarrow> (\<forall>m s. (i, m, s) \<notin> set ?out)"
  proof (intro allI impI)
    fix i m s assume i: "i < ?n" and h: "\<forall>c \<in> set cols. cell_at c i = NaN"
    from h have "\<not> (\<exists>c \<in> set cols. \<exists>q. cell_at c i = Num q)" by auto
    then have "nanmean (row_of cols i) = NaN" using defined [of i] by simp
    with i show "(i, m, s) \<notin> set ?out" unfolding mem by simp
  qed
  have 4: "\<forall>i < ?n. sat ! i = NaN \<longrightarrow> (\<forall>m s. (?n + i, m, s) \<notin> set ?out)"
  proof (intro allI impI)
    fix i m s assume "i < ?n" and "sat ! i = NaN"
    then show "(?n + i, m, s) \<notin> set ?out" unfolding mem by simp
  qed
  show ?thesis
    by (rule exI [of _ "?out"], intro conjI) (fact out, fact 1, fact 2, fact 3, fact 4)
qed

theorem expectation_plot_data_by_row_witness:
  "\<exists>out. fst (expectation_plot_data expectation_q1_sample) = Inr out \<and>
     (0, ''Average Initial Expectation'', Num 4) \<in> set out \<and>
     (2, ''Expectation Met Score'', Num 5) \<in> set out \<and>
     (1, ''Average Initial Expectation'', Num 3) \<in> set out \<and>
     (3, ''Expectation Met Score'', Num 2) \<in> set out"
proof -
  have x: "\<not> list_ex (list_ex is_Str) [[NaN, Num 3], [Num 4, Num 3], [Num 4, Num 3], [Num 4, Num 3]]"
    by simp
  have n: "length [Num 5, Num 2] = nrows expectation_q1_sample"
    by (simp add: expectation_q1_sample_eval(3))
  from expectation_plot_data_by_row [OF expectation_q1_sample_eval(1) x expectation_q1_sample_eval(2) n]
  obtain out where "fst (expectation_plot_data expectation_q1_sample) = Inr out" by blast
  then show ?thesis using expectation_q1_sample_plot_data by auto
qed

subsection \<open>Which chart builders change the table\<close>

lemma plot_gender_distribution_frame: "snd (plot_gender_distribution data) = data"
  by (simp add: plot_gender_distribution_def split: sum.splits)

lemma plot_gpa_trend_frame: "snd (plot_gpa_trend to_num data) = data"
  by (simp add: plot_gpa_trend_def split: sum.splits prod.splits)

lemma plot_top_best_aspects_frame: "snd (plot_top_best_aspects data) = data"
  by (simp add: plot_top_best_aspects_def split: sum.splits)

lemma plot_improvement_perception_by_gender_frame:
  "snd (plot_improvement_perception_by_gender data) = data"
  by (simp add: plot_improvement_perception_by_gender_def split: sum.splits)

lemma update_absent: "map_of al k = None \<Longrightarrow> AList.update k v al = al @ [(k, v)]"
  by (induction al) (auto split: if_splits)

lemma plot_expectation_comparison_adds_column:
  assumes "getitems data expectation_cols = Inr cols"
    and "\<not> list_ex (list_ex is_Str) cols"
    and "getitem data satisfaction_col = Inr sat"
    and "map_of data ''Mean Expectation'' = None"
  shows "snd (plot_expectation_comparison data) =
           data @ [(''Mean Expectation'', map (\<lambda>i. nanmean (row_of cols i)) [0..<nrows data])]"
  using assms(4)
  by (simp add: plot_expectation_comparison_def expectation_plot_data_eq [OF assms(1-3)]
      setitem_def update_absent)

text \<open>
  Claim C1. \<^verbatim>\<open>plot_gender_distribution\<close>, \<^verbatim>\<open>plot_gpa_trend\<close>,
  \<^verbatim>\<open>plot_top_best_aspects\<close> and \<^verbatim>\<open>plot_improvement_perception_by_gender\<close> leave
  the table they are given as it was; \<^verbatim>\<open>plot_gpa_trend\<close> does so by handing a copy to
  \<^verbatim>\<open>clean_gpa_data\<close>. The other two assign to the table itself: after
  \<^verbatim>\<open>plot_expectation_comparison\<close> the caller's table has the further column
  Mean Expectation, and after \<^verbatim>\<open>plot_policy_vs_implementation_ratings\<close> a text in an
  evaluation column has become missing. The calls at the end of the script pass one
  table \<^verbatim>\<open>df\<close> to all six builders, so a builder called later is given the changed
  table.
\<close>

theorem chart_builders_change_table:
  "snd (plot_expectation_comparison expectation_sample) =
     expectation_sample @ [(''Mean Expectation'', [Num 4, Num 3])] \<and>
   snd (plot_expectation_comparison expectation_sample) \<noteq> expectation_sample \<and>
   snd (plot_policy_vs_implementation_ratings to_num_sample policy_sample) =
     [(''Area of Evaluation [Admission]'', [NaN, Num 4]), (''Item 1'', [Num 5, Num 3])] \<and>
   snd (plot_policy_vs_implementation_ratings to_num_sample policy_sample) \<noteq> policy_sample"
proof -
  have g: "getitems expectation_sample expectation_cols =
     Inr [[NaN, Num 3], [Num 4, Num 3], [Num 4, Num 3], [Num 4, Num 3]]"
    by (simp add: expectation_sample_def expectation_cols_def getitem_def)
  have s: "getitem expectation_sample satisfaction_col = Inr [Num 5, NaN]"
    by (simp add: expectation_sample_def satisfaction_col_def getitem_def)
  have x: "\<not> list_ex (list_ex is_Str) [[NaN, Num 3], [Num 4, Num 3], [Num 4, Num 3], [Num 4, Num 3]]"
    by simp
  have a: "map_of expectation_sample ''Mean Expectation'' = None"
    by (simp add: expectation_sample_def)
  have n: "nrows expectation_sample = Suc (Suc 0)"
    by (simp add: expectation_sample_def nrows_def)
  have 1: "snd (plot_expectation_comparison expectation_sample) =
     expectation_sample @ [(''Mean Expectation'', [Num 4, Num 3])]"
    by (subst plot_expectation_comparison_adds_column [OF g x s a])
      (simp add: n row_of_def cell_at_def nanmean_def)
  have 2: "snd (plot_policy_vs_implementation_ratings to_num_sample policy_sample) =
     [(''Area of Evaluation [Admission]'', [NaN, Num 4]), (''Item 1'', [Num 5, Num 3])]"
    by (simp add: plot_policy_vs_implementation_ratings_def policy_sample_def coerce_where_def
        to_num_sample_def mean_of_row_means_def getitem_def mean_axis1_def mean_def nrows_def
        Let_def)
  have 3: "[(''Area of Evaluation [Admission]'', [NaN, Num 4]), (''Item 1'', [Num 5, Num 3])] \<noteq>
      policy_sample"
    by (simp add: policy_sample_def)
  from 1 2 3 show ?thesis by simp
qed


end
